theory Spec2Isabelle
  imports Complex_Main "HOL-Library.Char_ord" "HOL-Library.List_Lexorder"
begin

section \<open>The trading-strategy simulation engine\<close>

text \<open>
  This theory embeds the simulation service (\<open>evaluateCondition\<close>, \<open>shouldBuy\<close>,
  \<open>shouldSell\<close> and \<open>runSimulation\<close>) and the types it uses.

  Conventions of the embedding.
  \<^item> A JavaScript \<open>number\<close> is a \<^typ>\<open>real\<close>: arithmetic is exact. Rounding, \<open>NaN\<close>
    and the infinities are not represented, so a division agrees with the source only
    where the divisor is not zero. The theorems about the amounts of a run therefore
    take positive closing prices (\<open>pricesPositive\<close>), which keep every divisor of the
    day loop away from zero.
  \<^item> \<open>quantity\<close> is only ever written by \<open>Math.floor\<close>, so it is an \<^typ>\<open>int\<close>.
  \<^item> A date is the string the price provider puts in \<open>PriceData.date\<close>; strings are
    ordered by character code, as the default \<open>Array.prototype.sort\<close> orders them.
  \<^item> A rule configuration is the \<open>conditions\<close> property of the configuration
    object: absent (\<open>None\<close>) or an array of condition objects. A condition object is
    the four properties the code reads. \<open>type\<close>, \<open>indicator\<close> and \<open>operator\<close> are only
    tested for truthiness and compared with string literals by \<open>===\<close>, so each is a
    string or absent: a value that is not a string behaves as an unknown string when it
    is truthy and as an absent one when it is falsy. \<open>value\<close> is any JSON value, as the
    stored configuration can hold (\<open>jsValue\<close>).
  \<^item> A \<open>Trade\<close> object is mutated in place and compared by identity
    (\<open>p !== position\<close>). The field \<open>tref\<close> is that identity: the number of the
    allocation that created the object. It is not a property of the source object.
  \<^item> The price provider \<open>getHistoricalData\<close> is a parameter: a function from a
    symbol and a date range to that symbol's series.
\<close>

subsection \<open>Types\<close>

record PriceData =
  date :: string
  openPrice :: real
  high :: real
  close :: real
  low :: real
  volume :: real

datatype tradeStatus = Open | Closed

record Trade =
  tref :: nat
  symbol :: string
  entryDate :: string
  entryPrice :: real
  exitDate :: "string option"
  exitPrice :: "real option"
  quantity :: int
  pnl :: "real option"
  pnlPercentage :: "real option"
  status :: tradeStatus

text \<open>The \<open>value\<close> of a condition as the code can tell it apart: \<open>undefined\<close> (the
  property is absent), \<open>null\<close>, a boolean, a number, or any other JSON value (a string,
  an array, an object). The code only compares the value with a number, so another value
  is given by the number that \<open>ToNumber\<close> makes of it, \<open>None\<close> for \<open>NaN\<close>: \<open>"5"\<close> and
  \<open>[5]\<close> are \<open>JsOther (Some 5)\<close>, \<open>"abc"\<close> and \<open>{}\<close> are \<open>JsOther None\<close>.\<close>

datatype jsValue = JsUndefined | JsNull | JsBoolean bool | JsNumber real | JsOther "real option"

record Condition =
  ctype :: "string option"
  indicator :: "string option"
  operator :: "string option"
  cvalue :: jsValue

type_synonym ruleConfig = "Condition list option"

record SimulationConfig =
  startDate :: string
  endDate :: string
  initialCapital :: real
  symbols :: "string list"
  maxPositions :: real
  positionSize :: real

record Strategy =
  scannerConfig :: ruleConfig
  buyConfig :: ruleConfig
  sellConfig :: ruleConfig
  simulationConfig :: SimulationConfig

record EquityPoint =
  eqDate :: string
  equity :: real

record DrawdownPoint =
  ddDate :: string
  drawdown :: real

datatype profitFactorValue = Finite real | Infinity

record Metrics =
  maxDrawdown :: real
  averageTrade :: real
  profitFactor :: profitFactorValue
  totalTrades :: int
  winningTrades :: int
  losingTrades :: int

record SimulationResults =
  totalPnl :: real
  totalPnlPercentage :: real
  winRate :: real
  trades :: "Trade list"
  equityCurve :: "EquityPoint list"
  drawdowns :: "DrawdownPoint list"
  metrics :: Metrics

datatype error = TypeError

type_synonym provider = "string \<Rightarrow> string \<Rightarrow> string \<Rightarrow> PriceData list"

text \<open>The portfolio variables of \<open>runSimulation\<close>: \<open>cash\<close>, \<open>positions\<close>,
  \<open>allTrades\<close>, the local \<open>equityCurve\<close> (here \<open>curve\<close>) and the allocation counter.\<close>

record portfolio =
  cash :: real
  positions :: "Trade list"
  allTrades :: "Trade list"
  curve :: "EquityPoint list"
  nextRef :: nat

subsection \<open>Condition evaluation\<close>

text \<open>The first \<open>switch\<close> of \<open>evaluateCondition\<close>; \<open>None\<close> is its \<open>return false\<close>.\<close>

definition resolveIndicator :: "string \<Rightarrow> PriceData \<Rightarrow> PriceData option \<Rightarrow> real option" where
  "resolveIndicator ind priceData previousPriceData =
     (if ind = ''price'' then Some (close priceData)
      else if ind = ''volume'' then Some (volume priceData)
      else if ind = ''priceChange'' then
        (case previousPriceData of
           None \<Rightarrow> None
         | Some prev \<Rightarrow> Some ((close priceData - close prev) / close prev * 100))
      else None)"

text \<open>\<open>ToNumber\<close>, with \<open>None\<close> for \<open>NaN\<close>.\<close>

fun toNumber :: "jsValue \<Rightarrow> real option" where
  "toNumber JsUndefined = None"
| "toNumber JsNull = Some 0"
| "toNumber (JsBoolean b) = Some (if b then 1 else 0)"
| "toNumber (JsNumber x) = Some x"
| "toNumber (JsOther n) = n"

text \<open>A comparison \<open>actualValue < value\<close> (and \<open>>\<close>, \<open><=\<close>, \<open>>=\<close>) of a number with any
  value: the value is converted by \<open>ToNumber\<close>, and a comparison with \<open>NaN\<close> is false.\<close>

definition compareWith :: "(real \<Rightarrow> real \<Rightarrow> bool) \<Rightarrow> real \<Rightarrow> jsValue \<Rightarrow> bool" where
  "compareWith rel actualValue v =
     (case toNumber v of None \<Rightarrow> False | Some n \<Rightarrow> rel actualValue n)"

text \<open>\<open>actualValue === value\<close>: no conversion; a number equals only a number.\<close>

definition strictEquals :: "real \<Rightarrow> jsValue \<Rightarrow> bool" where
  "strictEquals actualValue v = (case v of JsNumber n \<Rightarrow> actualValue = n | _ \<Rightarrow> False)"

text \<open>The second \<open>switch\<close> of \<open>evaluateCondition\<close>.\<close>

definition applyOperator :: "string \<Rightarrow> real \<Rightarrow> jsValue \<Rightarrow> bool" where
  "applyOperator op actualValue v =
     (if op = ''>'' then compareWith (>) actualValue v
      else if op = ''<'' then compareWith (<) actualValue v
      else if op = ''>='' then compareWith (\<ge>) actualValue v
      else if op = ''<='' then compareWith (\<le>) actualValue v
      else if op = ''=='' then strictEquals actualValue v
      else False)"

text \<open>\<open>!x\<close> for a property that is absent or a string: absent and \<open>""\<close> are falsy.\<close>

definition falsy :: "string option \<Rightarrow> bool" where
  "falsy s = (case s of None \<Rightarrow> True | Some t \<Rightarrow> t = [])"

definition evaluateCondition :: "Condition option \<Rightarrow> PriceData \<Rightarrow> PriceData option \<Rightarrow> bool" where
  "evaluateCondition condition priceData previousPriceData =
     (case condition of
        None \<Rightarrow> False
      | Some c \<Rightarrow>
          if falsy (indicator c) \<or> falsy (operator c) \<or> cvalue c = JsUndefined then False
          else
            (case resolveIndicator (the (indicator c)) priceData previousPriceData of
               None \<Rightarrow> False
             | Some actualValue \<Rightarrow> applyOperator (the (operator c)) actualValue (cvalue c)))"

definition shouldBuy :: "ruleConfig \<Rightarrow> PriceData \<Rightarrow> PriceData option \<Rightarrow> bool" where
  "shouldBuy buyCfg priceData previousPriceData =
     (case buyCfg of
        None \<Rightarrow> False
      | Some conds \<Rightarrow>
          if conds = [] then False
          else list_all (\<lambda>c. evaluateCondition (Some c) priceData previousPriceData) conds)"

text \<open>The callback given to \<open>some\<close> in \<open>shouldSell\<close>. \<open>-condition.value\<close> and the
  comparisons convert the value by \<open>ToNumber\<close>; a comparison with an absent \<open>value\<close> is a
  comparison with \<open>NaN\<close>, which is false.\<close>

definition sellConditionMet :: "Condition \<Rightarrow> PriceData \<Rightarrow> PriceData option \<Rightarrow> Trade \<Rightarrow> bool" where
  "sellConditionMet c priceData previousPriceData trade =
     (if ctype c = Some ''stopLoss'' then
        (case toNumber (cvalue c) of
           None \<Rightarrow> False
         | Some v \<Rightarrow> (close priceData - entryPrice trade) / entryPrice trade * 100 \<le> - v)
      else if ctype c = Some ''takeProfit'' then
        (case toNumber (cvalue c) of
           None \<Rightarrow> False
         | Some v \<Rightarrow> (close priceData - entryPrice trade) / entryPrice trade * 100 \<ge> v)
      else evaluateCondition (Some c) priceData previousPriceData)"

definition shouldSell :: "ruleConfig \<Rightarrow> PriceData \<Rightarrow> PriceData option \<Rightarrow> Trade option \<Rightarrow> bool" where
  "shouldSell sellCfg priceData previousPriceData trade =
     (case sellCfg of
        None \<Rightarrow> False
      | Some conds \<Rightarrow>
          if conds = [] then False
          else
            (case trade of
               None \<Rightarrow> False
             | Some t \<Rightarrow>
                 if status t = Closed then False
                 else list_ex (\<lambda>c. sellConditionMet c priceData previousPriceData t) conds))"

subsection \<open>The trading calendar\<close>

text \<open>\<open>filter((date, index, self) => self.indexOf(date) === index)\<close>: an element stays
  iff it does not occur earlier in the array.\<close>

fun firstOccurrences :: "'a list \<Rightarrow> 'a list \<Rightarrow> 'a list" where
  "firstOccurrences seen [] = []"
| "firstOccurrences seen (x # xs) =
     (if x \<in> set seen then firstOccurrences seen xs
      else x # firstOccurrences (seen @ [x]) xs)"

text \<open>\<open>historicalDataBySymbol[symbol]\<close> after the fetch loop, for a configured symbol.\<close>

definition historicalDataBySymbol :: "provider \<Rightarrow> SimulationConfig \<Rightarrow> string \<Rightarrow> PriceData list" where
  "historicalDataBySymbol getHistoricalData cfg symb =
     getHistoricalData symb (startDate cfg) (endDate cfg)"

text \<open>\<open>Object.values\<close> lists each key once; the order of the keys does not survive
  the sort.\<close>

definition allDates :: "provider \<Rightarrow> SimulationConfig \<Rightarrow> string list" where
  "allDates getHistoricalData cfg =
     sort (firstOccurrences []
       (map date (concat (map (historicalDataBySymbol getHistoricalData cfg)
                              (firstOccurrences [] (symbols cfg))))))"

definition findBar :: "(string \<Rightarrow> PriceData list) \<Rightarrow> string \<Rightarrow> string \<Rightarrow> PriceData option" where
  "findBar hist symb d = List.find (\<lambda>bar. date bar = d) (hist symb)"

text \<open>\<open>if (previousDate) { ... find ... }\<close>: \<open>null\<close> and \<open>""\<close> are falsy.\<close>

definition findPreviousBar :: "(string \<Rightarrow> PriceData list) \<Rightarrow> string \<Rightarrow> string option \<Rightarrow> PriceData option" where
  "findPreviousBar hist symb previousDate =
     (case previousDate of
        None \<Rightarrow> None
      | Some d \<Rightarrow> if d = [] then None else findBar hist symb d)"

subsection \<open>One simulated day\<close>

text \<open>The body of the sell loop, for one element of the snapshot \<open>[...positions]\<close>.\<close>

definition closeStep ::
  "Strategy \<Rightarrow> (string \<Rightarrow> PriceData list) \<Rightarrow> string \<Rightarrow> string option \<Rightarrow> Trade \<Rightarrow> portfolio \<Rightarrow> portfolio" where
  "closeStep strategy hist currentDate previousDate position st =
     (if status position = Closed then st
      else
        (case findBar hist (symbol position) currentDate of
           None \<Rightarrow> st
         | Some currentPriceData \<Rightarrow>
             if shouldSell (sellConfig strategy) currentPriceData
                  (findPreviousBar hist (symbol position) previousDate) (Some position)
             then
               st\<lparr> cash := cash st + close currentPriceData * of_int (quantity position),
                   positions := filter (\<lambda>p. tref p \<noteq> tref position) (positions st),
                   allTrades := allTrades st @
                     [position\<lparr> exitDate := Some currentDate,
                                exitPrice := Some (close currentPriceData),
                                status := Closed,
                                pnl := Some ((close currentPriceData - entryPrice position)
                                             * of_int (quantity position)),
                                pnlPercentage := Some ((close currentPriceData - entryPrice position)
                                             / entryPrice position * 100) \<rparr>] \<rparr>
             else st))"

definition closeLoop ::
  "Strategy \<Rightarrow> (string \<Rightarrow> PriceData list) \<Rightarrow> string \<Rightarrow> string option \<Rightarrow> portfolio \<Rightarrow> portfolio" where
  "closeLoop strategy hist currentDate previousDate st =
     fold (closeStep strategy hist currentDate previousDate) (positions st) st"

definition passesScanner :: "ruleConfig \<Rightarrow> PriceData \<Rightarrow> PriceData option \<Rightarrow> bool" where
  "passesScanner scannerCfg priceData previousPriceData =
     (case scannerCfg of
        None \<Rightarrow> True
      | Some conds \<Rightarrow> list_all (\<lambda>c. evaluateCondition (Some c) priceData previousPriceData) conds)"

definition positionValue :: "SimulationConfig \<Rightarrow> real" where
  "positionValue cfg = positionSize cfg / 100 * initialCapital cfg"

text \<open>The body of the buy loop after the \<open>maxPositions\<close> test, for one symbol.\<close>

definition openStep ::
  "Strategy \<Rightarrow> (string \<Rightarrow> PriceData list) \<Rightarrow> string \<Rightarrow> string option \<Rightarrow> string \<Rightarrow> portfolio \<Rightarrow> portfolio" where
  "openStep strategy hist currentDate previousDate symb st =
     (case findBar hist symb currentDate of
        None \<Rightarrow> st
      | Some currentPriceData \<Rightarrow>
          let previousPriceData = findPreviousBar hist symb previousDate in
          if passesScanner (scannerConfig strategy) currentPriceData previousPriceData
             \<and> shouldBuy (buyConfig strategy) currentPriceData previousPriceData
          then
            if cash st < positionValue (simulationConfig strategy) then st
            else
              let qty = \<lfloor>positionValue (simulationConfig strategy) / close currentPriceData\<rfloor> in
              if qty = 0 then st
              else
                st\<lparr> cash := cash st - close currentPriceData * of_int qty,
                    positions := positions st @
                      [\<lparr> tref = nextRef st, symbol = symb, entryDate = currentDate,
                         entryPrice = close currentPriceData, exitDate = None, exitPrice = None,
                         quantity = qty, pnl = None, pnlPercentage = None, status = Open \<rparr>],
                    nextRef := Suc (nextRef st) \<rparr>
          else st)"

fun openLoop ::
  "Strategy \<Rightarrow> (string \<Rightarrow> PriceData list) \<Rightarrow> string \<Rightarrow> string option \<Rightarrow> string list \<Rightarrow> portfolio \<Rightarrow> portfolio" where
  "openLoop strategy hist currentDate previousDate [] st = st"
| "openLoop strategy hist currentDate previousDate (symb # symbs) st =
     (if real (length (positions st)) \<ge> maxPositions (simulationConfig strategy) then st
      else openLoop strategy hist currentDate previousDate symbs
             (openStep strategy hist currentDate previousDate symb st))"

text \<open>\<open>positions.reduce(..., cash)\<close>: the mark-to-market value on \<open>currentDate\<close>.\<close>

definition portfolioValue :: "(string \<Rightarrow> PriceData list) \<Rightarrow> string \<Rightarrow> portfolio \<Rightarrow> real" where
  "portfolioValue hist currentDate st =
     fold (\<lambda>position total.
             case findBar hist (symbol position) currentDate of
               Some symbolPriceData \<Rightarrow> total + close symbolPriceData * of_int (quantity position)
             | None \<Rightarrow> total)
          (positions st) (cash st)"

definition simulateDay ::
  "Strategy \<Rightarrow> (string \<Rightarrow> PriceData list) \<Rightarrow> string option \<Rightarrow> string \<Rightarrow> portfolio \<Rightarrow> portfolio" where
  "simulateDay strategy hist previousDate currentDate st =
     (let st1 = closeLoop strategy hist currentDate previousDate st;
          st2 = openLoop strategy hist currentDate previousDate
                  (symbols (simulationConfig strategy)) st1
      in st2\<lparr> curve := curve st2 @
                [\<lparr> eqDate = currentDate, equity = portfolioValue hist currentDate st2 \<rparr>] \<rparr>)"

text \<open>The loop over \<open>allDates\<close>; \<open>previousDate\<close> is \<open>null\<close> on the first day.\<close>

fun dayLoop ::
  "Strategy \<Rightarrow> (string \<Rightarrow> PriceData list) \<Rightarrow> string option \<Rightarrow> string list \<Rightarrow> portfolio \<Rightarrow> portfolio" where
  "dayLoop strategy hist previousDate [] st = st"
| "dayLoop strategy hist previousDate (currentDate # ds) st =
     dayLoop strategy hist (Some currentDate) ds
       (simulateDay strategy hist previousDate currentDate st)"

definition initialPortfolio :: "SimulationConfig \<Rightarrow> portfolio" where
  "initialPortfolio cfg =
     \<lparr> cash = initialCapital cfg, positions = [], allTrades = [], curve = [], nextRef = 0 \<rparr>"

subsection \<open>Finalization and metrics\<close>

text \<open>The body of the loop that closes the remaining positions, given the last
  element of the symbol's series.\<close>

definition closeAtLast :: "PriceData \<Rightarrow> Trade \<Rightarrow> Trade" where
  "closeAtLast lastPriceData position =
     position\<lparr> exitDate := Some (date lastPriceData),
                exitPrice := Some (close lastPriceData),
                status := Closed,
                pnl := Some ((close lastPriceData - entryPrice position)
                             * of_int (quantity position)),
                pnlPercentage := Some ((close lastPriceData - entryPrice position)
                             / entryPrice position * 100) \<rparr>"

text \<open>The loop itself. \<open>series[series.length - 1]\<close> of an empty series is
  \<open>undefined\<close>, and reading its \<open>date\<close> throws.\<close>

fun forceClose :: "(string \<Rightarrow> PriceData list) \<Rightarrow> Trade list \<Rightarrow> Trade list \<Rightarrow> error + Trade list" where
  "forceClose hist [] ledger = Inr ledger"
| "forceClose hist (position # ps) ledger =
     (if hist (symbol position) = [] then Inl TypeError
      else forceClose hist ps
             (ledger @ [closeAtLast (last (hist (symbol position))) position]))"

text \<open>\<open>trade.pnl || 0\<close> and \<open>trade.pnlPercentage || 0\<close>.\<close>

definition pnlOrZero :: "Trade \<Rightarrow> real" where
  "pnlOrZero t = (case pnl t of None \<Rightarrow> 0 | Some v \<Rightarrow> v)"

definition pnlPercentageOrZero :: "Trade \<Rightarrow> real" where
  "pnlPercentageOrZero t = (case pnlPercentage t of None \<Rightarrow> 0 | Some v \<Rightarrow> v)"

text \<open>\<open>equityCurve[equityCurve.length - 1]?.equity || initialCapital\<close>: the default
  is taken when the curve is empty and when the last equity is the falsy \<open>0\<close>.\<close>

definition finalCapital :: "EquityPoint list \<Rightarrow> real \<Rightarrow> real" where
  "finalCapital eqs initCap =
     (if eqs = [] then initCap
      else if equity (last eqs) = 0 then initCap
      else equity (last eqs))"

fun drawdownLoop :: "real \<Rightarrow> EquityPoint list \<Rightarrow> DrawdownPoint list" where
  "drawdownLoop peak [] = []"
| "drawdownLoop peak (point # pts) =
     (let peak' = (if equity point > peak then equity point else peak) in
      \<lparr> ddDate = eqDate point, drawdown = (peak' - equity point) / peak' * 100 \<rparr>
        # drawdownLoop peak' pts)"

text \<open>\<open>Math.max(...drawdowns.map(d => d.drawdown), 0)\<close>.\<close>

definition maxDrawdownOf :: "DrawdownPoint list \<Rightarrow> real" where
  "maxDrawdownOf dds = fold max (map drawdown dds) 0"

definition grossProfit :: "Trade list \<Rightarrow> real" where
  "grossProfit ts = sum_list (map pnlOrZero (filter (\<lambda>t. pnlOrZero t > 0) ts))"

definition grossLoss :: "Trade list \<Rightarrow> real" where
  "grossLoss ts = \<bar>sum_list (map pnlOrZero (filter (\<lambda>t. pnlOrZero t < 0) ts))\<bar>"

definition computeResults :: "SimulationConfig \<Rightarrow> Trade list \<Rightarrow> EquityPoint list \<Rightarrow> SimulationResults" where
  "computeResults cfg ledger eqs =
     (let initCap = initialCapital cfg;
          total = finalCapital eqs initCap - initCap;
          winning = int (length (filter (\<lambda>t. pnlOrZero t > 0) ledger));
          count = int (length ledger);
          dds = drawdownLoop initCap eqs;
          gp = grossProfit ledger;
          gl = grossLoss ledger
      in \<lparr> totalPnl = total,
           totalPnlPercentage = total / initCap * 100,
           winRate = (if count > 0 then real_of_int winning / real_of_int count * 100 else 0),
           trades = ledger,
           equityCurve = eqs,
           drawdowns = dds,
           metrics =
             \<lparr> maxDrawdown = maxDrawdownOf dds,
               averageTrade =
                 (if count > 0
                  then sum_list (map pnlPercentageOrZero ledger) / real_of_int count
                  else 0),
               profitFactor =
                 (if gl > 0 then Finite (gp / gl) else if gp > 0 then Infinity else Finite 0),
               totalTrades = count,
               winningTrades = winning,
               losingTrades = count - winning \<rparr> \<rparr>)"

definition runSimulation :: "Strategy \<Rightarrow> provider \<Rightarrow> error + SimulationResults" where
  "runSimulation strategy getHistoricalData =
     (let cfg = simulationConfig strategy;
          hist = historicalDataBySymbol getHistoricalData cfg;
          st = dayLoop strategy hist None (allDates getHistoricalData cfg) (initialPortfolio cfg)
      in case forceClose hist (positions st) (allTrades st) of
           Inl e \<Rightarrow> Inl e
         | Inr ledger \<Rightarrow> Inr (computeResults cfg ledger (curve st)))"

subsection \<open>The states a run goes through\<close>

text \<open>The state after each iteration of a \<open>for ... of\<close> loop without \<open>break\<close>; the
  loop itself is \<^const>\<open>fold\<close>.\<close>

fun steps :: "('a \<Rightarrow> 's \<Rightarrow> 's) \<Rightarrow> 'a list \<Rightarrow> 's \<Rightarrow> 's list" where
  "steps f [] s = []"
| "steps f (x # xs) s = f x s # steps f xs (f x s)"

text \<open>The state after each iteration of the buy loop that gets past the
  \<open>maxPositions\<close> test.\<close>

fun openTrace ::
  "Strategy \<Rightarrow> (string \<Rightarrow> PriceData list) \<Rightarrow> string \<Rightarrow> string option \<Rightarrow> string list \<Rightarrow> portfolio \<Rightarrow> portfolio list" where
  "openTrace strategy hist currentDate previousDate [] st = []"
| "openTrace strategy hist currentDate previousDate (symb # symbs) st =
     (if real (length (positions st)) \<ge> maxPositions (simulationConfig strategy) then []
      else openStep strategy hist currentDate previousDate symb st
             # openTrace strategy hist currentDate previousDate symbs
                 (openStep strategy hist currentDate previousDate symb st))"

text \<open>Every state of the day loop, in order: after each sell iteration, after each buy
  iteration, and after the equity snapshot of each day.\<close>

fun dayTrace ::
  "Strategy \<Rightarrow> (string \<Rightarrow> PriceData list) \<Rightarrow> string option \<Rightarrow> string list \<Rightarrow> portfolio \<Rightarrow> portfolio list" where
  "dayTrace strategy hist previousDate [] st = []"
| "dayTrace strategy hist previousDate (currentDate # ds) st =
     steps (closeStep strategy hist currentDate previousDate) (positions st) st
     @ openTrace strategy hist currentDate previousDate (symbols (simulationConfig strategy))
         (closeLoop strategy hist currentDate previousDate st)
     @ [simulateDay strategy hist previousDate currentDate st]
     @ dayTrace strategy hist (Some currentDate) ds
         (simulateDay strategy hist previousDate currentDate st)"

definition loopStates :: "Strategy \<Rightarrow> provider \<Rightarrow> portfolio list" where
  "loopStates strategy getHistoricalData =
     (let cfg = simulationConfig strategy
      in initialPortfolio cfg
         # dayTrace strategy (historicalDataBySymbol getHistoricalData cfg) None
             (allDates getHistoricalData cfg) (initialPortfolio cfg))"

text \<open>The portfolio when the day loop has ended.\<close>

definition afterLoop :: "Strategy \<Rightarrow> provider \<Rightarrow> portfolio" where
  "afterLoop strategy getHistoricalData =
     (let cfg = simulationConfig strategy
      in dayLoop strategy (historicalDataBySymbol getHistoricalData cfg) None
           (allDates getHistoricalData cfg) (initialPortfolio cfg))"

subsection \<open>Predicates used in the statements\<close>

text \<open>Object identity: the open positions are distinct objects, allocated before
  the next allocation.\<close>

definition distinctRefs :: "portfolio \<Rightarrow> bool" where
  "distinctRefs st =
     (distinct (map tref (positions st)) \<and> list_all (\<lambda>p. tref p < nextRef st) (positions st))"

text \<open>What was paid for a list of positions.\<close>

definition invested :: "Trade list \<Rightarrow> real" where
  "invested ps = sum_list (map (\<lambda>p. entryPrice p * of_int (quantity p)) ps)"

text \<open>The sum of \<open>pnl\<close> over a ledger.\<close>

definition ledgerPnl :: "Trade list \<Rightarrow> real" where
  "ledgerPnl ts = sum_list (map pnlOrZero ts)"

text \<open>Every bar of every configured symbol has a positive close.\<close>

definition pricesPositive :: "provider \<Rightarrow> SimulationConfig \<Rightarrow> bool" where
  "pricesPositive getHistoricalData cfg =
     list_all (\<lambda>symb. list_all (\<lambda>b. 0 < close b)
                         (historicalDataBySymbol getHistoricalData cfg symb))
              (symbols cfg)"

text \<open>The provider's contract: each configured symbol's series is in ascending order
  of date, one bar per day.\<close>

definition datesAscending :: "provider \<Rightarrow> SimulationConfig \<Rightarrow> bool" where
  "datesAscending getHistoricalData cfg =
     list_all (\<lambda>symb. sorted_wrt (<) (map date (historicalDataBySymbol getHistoricalData cfg symb)))
              (symbols cfg)"

text \<open>Every position still open when the day loop ends has a bar on the last
  trading day.\<close>

definition openPositionsPricedOnLastDay :: "Strategy \<Rightarrow> provider \<Rightarrow> bool" where
  "openPositionsPricedOnLastDay strategy getHistoricalData =
     (let cfg = simulationConfig strategy in
      list_all (\<lambda>p. findBar (historicalDataBySymbol getHistoricalData cfg) (symbol p)
                        (last (allDates getHistoricalData cfg)) \<noteq> None)
               (positions (afterLoop strategy getHistoricalData)))"

text \<open>The configuration invariants of the specification: a positive initial capital,
  at least one symbol, a position size in \<open>(0, 100]\<close>.\<close>

definition violatesInvariants :: "SimulationConfig \<Rightarrow> bool" where
  "violatesInvariants cfg =
     (initialCapital cfg \<le> 0 \<or> symbols cfg = []
      \<or> positionSize cfg \<le> 0 \<or> positionSize cfg > 100)"

text \<open>The running peak of the specification at point \<open>i\<close> of the equity curve: the
  largest of the initial capital and the equities up to and including that point.\<close>

definition peakAt :: "real \<Rightarrow> EquityPoint list \<Rightarrow> nat \<Rightarrow> real" where
  "peakAt initCap eqs i = fold max (map equity (take (Suc i) eqs)) initCap"

text \<open>Every open position is of a configured symbol with a non-empty series.\<close>

definition hasSeries :: "(string \<Rightarrow> PriceData list) \<Rightarrow> string list \<Rightarrow> portfolio \<Rightarrow> bool" where
  "hasSeries hist symbs st =
     list_all (\<lambda>p. symbol p \<in> set symbs \<and> hist (symbol p) \<noteq> []) (positions st)"

text \<open>The ledger a run returns: the trades closed in the day loop, then the positions
  still open, closed at the last bar of their series.\<close>

definition finalLedger :: "Strategy \<Rightarrow> provider \<Rightarrow> Trade list" where
  "finalLedger strategy getHistoricalData =
     (let hist = historicalDataBySymbol getHistoricalData (simulationConfig strategy);
          st = afterLoop strategy getHistoricalData
      in allTrades st @ map (\<lambda>p. closeAtLast (last (hist (symbol p))) p) (positions st))"


text \<open>The accounts balance: the cash is the initial capital, less what the open positions
  cost, plus the \<open>pnl\<close> of the closed trades. Every trade of the ledger is closed, with
  the \<open>pnl\<close> of its exit price.\<close>

definition balanced :: "real \<Rightarrow> portfolio \<Rightarrow> bool" where
  "balanced initCap st =
     (cash st = initCap - invested (positions st) + ledgerPnl (allTrades st))"

definition closedTrade :: "Trade \<Rightarrow> bool" where
  "closedTrade t =
     (status t = Closed
      \<and> (case exitPrice t of
            None \<Rightarrow> False
          | Some x \<Rightarrow> pnl t = Some ((x - entryPrice t) * of_int (quantity t))))"

subsection \<open>Example inputs\<close>

definition mkBar :: "string \<Rightarrow> real \<Rightarrow> PriceData" where
  "mkBar d c = \<lparr> date = d, openPrice = c, high = c, close = c, low = c, volume = 1000000 \<rparr>"

definition priceAbove :: "real \<Rightarrow> Condition" where
  "priceAbove v = \<lparr> ctype = None, indicator = Some ''price'', operator = Some ''>'', cvalue = JsNumber v \<rparr>"

definition takeProfit :: "real \<Rightarrow> Condition" where
  "takeProfit v = \<lparr> ctype = Some ''takeProfit'', indicator = None, operator = None, cvalue = JsNumber v \<rparr>"

definition stopLoss :: "real \<Rightarrow> Condition" where
  "stopLoss v = \<lparr> ctype = Some ''stopLoss'', indicator = None, operator = None, cvalue = JsNumber v \<rparr>"

text \<open>One symbol over three days, bought on the first day and sold at a profit on the
  second, then bought again.\<close>

definition providerA :: provider where
  "providerA symb from to =
     (if symb = ''A'' then [mkBar ''2024-01-01'' 100, mkBar ''2024-01-02'' 110, mkBar ''2024-01-03'' 120] else [])"

definition strategyA :: Strategy where
  "strategyA =
     \<lparr> scannerConfig = Some [],
       buyConfig = Some [priceAbove 0],
       sellConfig = Some [takeProfit 5],
       simulationConfig =
         \<lparr> startDate = ''2024-01-01'', endDate = ''2024-01-03'', initialCapital = 1000,
           symbols = [''A''], maxPositions = 1, positionSize = 50 \<rparr> \<rparr>"

definition resultA :: SimulationResults where
  "resultA =
     \<lparr> totalPnl = 90, totalPnlPercentage = 9, winRate = 200 / 3,
       trades =
         [\<lparr> tref = 0, symbol = ''A'', entryDate = ''2024-01-01'', entryPrice = 100,
            exitDate = Some ''2024-01-02'', exitPrice = Some 110, quantity = 5,
            pnl = Some 50, pnlPercentage = Some 10, status = Closed \<rparr>,
          \<lparr> tref = 1, symbol = ''A'', entryDate = ''2024-01-02'', entryPrice = 110,
            exitDate = Some ''2024-01-03'', exitPrice = Some 120, quantity = 4,
            pnl = Some 40, pnlPercentage = Some (100 / 11), status = Closed \<rparr>,
          \<lparr> tref = 2, symbol = ''A'', entryDate = ''2024-01-03'', entryPrice = 120,
            exitDate = Some ''2024-01-03'', exitPrice = Some 120, quantity = 4,
            pnl = Some 0, pnlPercentage = Some 0, status = Closed \<rparr>],
       equityCurve =
         [\<lparr> eqDate = ''2024-01-01'', equity = 1000 \<rparr>,
          \<lparr> eqDate = ''2024-01-02'', equity = 1050 \<rparr>,
          \<lparr> eqDate = ''2024-01-03'', equity = 1090 \<rparr>],
       drawdowns =
         [\<lparr> ddDate = ''2024-01-01'', drawdown = 0 \<rparr>,
          \<lparr> ddDate = ''2024-01-02'', drawdown = 0 \<rparr>,
          \<lparr> ddDate = ''2024-01-03'', drawdown = 0 \<rparr>],
       metrics =
         \<lparr> maxDrawdown = 0, averageTrade = 70 / 11, profitFactor = Infinity,
           totalTrades = 3, winningTrades = 2, losingTrades = 1 \<rparr> \<rparr>"

text \<open>The same run with no buy conditions, and with a position size outside
  \<open>(0, 100]\<close>.\<close>

definition strategyNoBuy :: Strategy where
  "strategyNoBuy = strategyA\<lparr> buyConfig := Some [] \<rparr>"

definition strategyOversized :: Strategy where
  "strategyOversized =
     strategyA\<lparr> simulationConfig := (simulationConfig strategyA)\<lparr> positionSize := 150 \<rparr> \<rparr>"

text \<open>One symbol bought on the first day and held while the price dips; no sell rule.\<close>

definition providerDip :: provider where
  "providerDip symb from to =
     (if symb = ''A'' then [mkBar ''2024-01-01'' 100, mkBar ''2024-01-02'' 90, mkBar ''2024-01-03'' 95] else [])"

definition strategyHold :: Strategy where
  "strategyHold = strategyA\<lparr> sellConfig := Some [] \<rparr>"

text \<open>Two symbols, a limit of one position and the whole capital per position. The first
  symbol is bought on the first day and has no bar on the second.\<close>

definition providerGap :: provider where
  "providerGap symb from to =
     (if symb = ''A'' then [mkBar ''2024-01-01'' 100]
      else if symb = ''B'' then [mkBar ''2024-01-01'' 5000, mkBar ''2024-01-02'' 5000]
      else [])"

definition strategyAllIn :: Strategy where
  "strategyAllIn =
     \<lparr> scannerConfig = None,
       buyConfig = Some [priceAbove 0],
       sellConfig = None,
       simulationConfig =
         \<lparr> startDate = ''2024-01-01'', endDate = ''2024-01-02'', initialCapital = 1000,
           symbols = [''A'', ''B''], maxPositions = 1, positionSize = 100 \<rparr> \<rparr>"

text \<open>An open position of five shares bought at 100.\<close>

definition tradeA :: Trade where
  "tradeA =
     \<lparr> tref = 0, symbol = ''A'', entryDate = ''2024-01-01'', entryPrice = 100, exitDate = None,
       exitPrice = None, quantity = 5, pnl = None, pnlPercentage = None, status = Open \<rparr>"

text \<open>The condition \<open>{indicator: 'price', operator: '>', value: null}\<close>.\<close>

definition priceAboveNull :: Condition where
  "priceAboveNull =
     \<lparr> ctype = None, indicator = Some ''price'', operator = Some ''>'', cvalue = JsNull \<rparr>"

text \<open>Two symbols that both signal a buy every day, a quarter of the capital per position,
  no sell rule; with a limit of one position, of one and a half, and of a thousand.\<close>

definition providerTwo :: provider where
  "providerTwo symb from to =
     (if symb = ''A'' then [mkBar ''2024-01-01'' 100, mkBar ''2024-01-02'' 110]
      else if symb = ''B'' then [mkBar ''2024-01-01'' 50, mkBar ''2024-01-02'' 55]
      else [])"

definition strategyTwo :: "real \<Rightarrow> Strategy" where
  "strategyTwo limit =
     \<lparr> scannerConfig = None,
       buyConfig = Some [priceAbove 0],
       sellConfig = None,
       simulationConfig =
         \<lparr> startDate = ''2024-01-01'', endDate = ''2024-01-02'', initialCapital = 1000,
           symbols = [''A'', ''B''], maxPositions = limit, positionSize = 25 \<rparr> \<rparr>"

text \<open>One symbol rising from 100 to 110 with a negative initial capital, and from 100 to
  300 with a negative position size and a profit target.\<close>

definition providerRise :: "real \<Rightarrow> provider" where
  "providerRise c symb from to =
     (if symb = ''A'' then [mkBar ''2024-01-01'' 100, mkBar ''2024-01-02'' c] else [])"

definition strategyNegativeCapital :: Strategy where
  "strategyNegativeCapital =
     \<lparr> scannerConfig = None,
       buyConfig = Some [priceAbove 0],
       sellConfig = None,
       simulationConfig =
         \<lparr> startDate = ''2024-01-01'', endDate = ''2024-01-02'', initialCapital = - 1000,
           symbols = [''A''], maxPositions = 1, positionSize = 100 \<rparr> \<rparr>"

definition strategyNegativeSize :: Strategy where
  "strategyNegativeSize =
     \<lparr> scannerConfig = None,
       buyConfig = Some [priceAbove 0],
       sellConfig = Some [takeProfit 5],
       simulationConfig =
         \<lparr> startDate = ''2024-01-01'', endDate = ''2024-01-02'', initialCapital = 1000,
           symbols = [''A''], maxPositions = 1, positionSize = - 100 \<rparr> \<rparr>"

section \<open>Properties\<close>

subsection \<open>Invariants of the day loop\<close>

text \<open>A loop without \<open>break\<close> ends in the last of its states.\<close>

lemma fold_last_steps: "fold f xs s = last (s # steps f xs s)"
  by (induction xs arbitrary: s) auto

text \<open>The buy loop and the day loop end in the last of their states.\<close>

lemma openLoop_last_trace:
  "openLoop strategy hist cur prev symbs st
   = last (st # openTrace strategy hist cur prev symbs st)"
  by (induction symbs arbitrary: st) simp_all

lemma dayLoop_last_trace:
  "dayLoop strategy hist prev ds st = last (st # dayTrace strategy hist prev ds st)"
  by (induction ds arbitrary: st prev) simp_all

lemma afterLoop_last_state:
  "afterLoop strategy getHistoricalData = last (loopStates strategy getHistoricalData)"
  by (simp add: afterLoop_def loopStates_def Let_def dayLoop_last_trace)

text \<open>A sell iteration removes at most the position it looks at, and allocates nothing.\<close>

lemma closeStep_nextRef: "nextRef (closeStep strategy hist cur prev p st) = nextRef st"
  by (simp add: closeStep_def split: option.split)

lemma closeStep_positions_cases:
  "positions (closeStep strategy hist cur prev p st) = positions st
   \<or> positions (closeStep strategy hist cur prev p st)
       = filter (\<lambda>q. tref q \<noteq> tref p) (positions st)"
  by (simp add: closeStep_def split: option.split)

lemma closeStep_positions_subset:
  "set (positions (closeStep strategy hist cur prev p st)) \<subseteq> set (positions st)"
  using closeStep_positions_cases [of strategy hist cur prev p st] by auto

lemma closeStep_keeps_others:
  assumes "q \<in> set (positions st)" and "tref q \<noteq> tref p"
  shows "q \<in> set (positions (closeStep strategy hist cur prev p st))"
  using closeStep_positions_cases [of strategy hist cur prev p st] assms by auto

lemma closeStep_distinctRefs:
  assumes "distinctRefs st"
  shows "distinctRefs (closeStep strategy hist cur prev p st)"
proof -
  have "distinct (map tref (filter (\<lambda>q. tref q \<noteq> tref p) (positions st)))"
    using assms by (simp add: distinctRefs_def distinct_map_filter)
  moreover have "list_all (\<lambda>q. tref q < nextRef st) (filter (\<lambda>q. tref q \<noteq> tref p) (positions st))"
    using assms by (simp add: distinctRefs_def list_all_iff)
  ultimately show ?thesis
    using assms closeStep_positions_cases [of strategy hist cur prev p st]
    by (auto simp: distinctRefs_def closeStep_nextRef)
qed

lemma openStep_distinctRefs:
  assumes "distinctRefs st"
  shows "distinctRefs (openStep strategy hist cur prev symb st)"
  using assms
  by (auto simp: openStep_def distinctRefs_def Let_def list_all_iff split: option.split
           intro: less_SucI)

text \<open>
  The invariant rule of a run. A property of the portfolio holds in every state of the
  day loop when it holds at the start and is kept by a sell iteration on a position that is
  still open, by a buy iteration on a configured symbol below the position limit, and by
  appending to the equity curve. The positions of the snapshot that the sell loop has not
  reached are still open, because they are distinct objects.
\<close>

lemma close_steps_invariant:
  assumes step: "\<And>p s. P s \<Longrightarrow> distinctRefs s \<Longrightarrow> p \<in> set (positions s)
                   \<Longrightarrow> P (closeStep strategy hist cur prev p s)"
  shows "P st \<Longrightarrow> distinctRefs st \<Longrightarrow> set ps \<subseteq> set (positions st) \<Longrightarrow> distinct (map tref ps)
         \<Longrightarrow> P (fold (closeStep strategy hist cur prev) ps st)
             \<and> distinctRefs (fold (closeStep strategy hist cur prev) ps st)
             \<and> list_all (\<lambda>s. P s \<and> distinctRefs s) (steps (closeStep strategy hist cur prev) ps st)"
proof (induction ps arbitrary: st)
  case Nil
  then show ?case by simp
next
  case (Cons p ps)
  let ?st' = "closeStep strategy hist cur prev p st"
  have p_in: "p \<in> set (positions st)" using Cons.prems(3) by simp
  have P': "P ?st'" using step [OF Cons.prems(1) Cons.prems(2) p_in] .
  have D': "distinctRefs ?st'" using closeStep_distinctRefs [OF Cons.prems(2)] .
  have sub: "set ps \<subseteq> set (positions ?st')"
  proof
    fix q assume q: "q \<in> set ps"
    then have "q \<in> set (positions st)" using Cons.prems(3) by auto
    moreover have "tref q \<noteq> tref p"
    proof -
      have "tref q \<in> tref ` set ps" using q by simp
      moreover have "tref p \<notin> tref ` set ps" using Cons.prems(4) by simp
      ultimately show ?thesis by metis
    qed
    ultimately show "q \<in> set (positions ?st')" by (rule closeStep_keeps_others)
  qed
  have dist: "distinct (map tref ps)" using Cons.prems(4) by simp
  from Cons.IH [OF P' D' sub dist] P' D' show ?case by simp
qed

lemma closeLoop_invariant:
  assumes step: "\<And>p s. P s \<Longrightarrow> distinctRefs s \<Longrightarrow> p \<in> set (positions s)
                   \<Longrightarrow> P (closeStep strategy hist cur prev p s)"
    and "P st" and "distinctRefs st"
  shows "P (closeLoop strategy hist cur prev st)
         \<and> distinctRefs (closeLoop strategy hist cur prev st)
         \<and> list_all (\<lambda>s. P s \<and> distinctRefs s)
              (steps (closeStep strategy hist cur prev) (positions st) st)"
  unfolding closeLoop_def
  using close_steps_invariant [of P strategy hist cur prev st "positions st", OF step]
        assms(2,3)
  by (simp add: distinctRefs_def)

lemma openLoop_invariant:
  assumes step: "\<And>symb s. P s \<Longrightarrow> distinctRefs s \<Longrightarrow> symb \<in> S
                   \<Longrightarrow> real (length (positions s)) < maxPositions (simulationConfig strategy)
                   \<Longrightarrow> P (openStep strategy hist cur prev symb s)"
  shows "P st \<Longrightarrow> distinctRefs st \<Longrightarrow> set symbs \<subseteq> S
         \<Longrightarrow> P (openLoop strategy hist cur prev symbs st)
             \<and> distinctRefs (openLoop strategy hist cur prev symbs st)
             \<and> list_all (\<lambda>s. P s \<and> distinctRefs s) (openTrace strategy hist cur prev symbs st)"
proof (induction symbs arbitrary: st)
  case Nil
  then show ?case by simp
next
  case (Cons symb symbs)
  show ?case
  proof (cases "real (length (positions st)) \<ge> maxPositions (simulationConfig strategy)")
    case True
    then show ?thesis using Cons.prems by simp
  next
    case False
    let ?st' = "openStep strategy hist cur prev symb st"
    have P': "P ?st'" using step [OF Cons.prems(1,2)] Cons.prems(3) False by simp
    have D': "distinctRefs ?st'" using openStep_distinctRefs [OF Cons.prems(2)] .
    have "set symbs \<subseteq> S" using Cons.prems(3) by simp
    from Cons.IH [OF P' D' this] P' D' False show ?thesis by simp
  qed
qed

lemma dayLoop_invariant:
  assumes cl: "\<And>cur prev p s. P s \<Longrightarrow> distinctRefs s \<Longrightarrow> p \<in> set (positions s)
                   \<Longrightarrow> P (closeStep strategy hist cur prev p s)"
    and op: "\<And>cur prev symb s. P s \<Longrightarrow> distinctRefs s
                   \<Longrightarrow> symb \<in> set (symbols (simulationConfig strategy))
                   \<Longrightarrow> real (length (positions s)) < maxPositions (simulationConfig strategy)
                   \<Longrightarrow> P (openStep strategy hist cur prev symb s)"
    and cv: "\<And>s pts. P s \<Longrightarrow> P (s\<lparr>curve := pts\<rparr>)"
  shows "P st \<Longrightarrow> distinctRefs st
         \<Longrightarrow> P (dayLoop strategy hist prev ds st)
             \<and> distinctRefs (dayLoop strategy hist prev ds st)
             \<and> list_all (\<lambda>s. P s \<and> distinctRefs s) (dayTrace strategy hist prev ds st)"
proof (induction ds arbitrary: st prev)
  case Nil
  then show ?case by simp
next
  case (Cons d ds)
  let ?st1 = "closeLoop strategy hist d prev st"
  let ?st2 = "openLoop strategy hist d prev (symbols (simulationConfig strategy)) ?st1"
  let ?st3 = "simulateDay strategy hist prev d st"
  have c: "P ?st1 \<and> distinctRefs ?st1
           \<and> list_all (\<lambda>s. P s \<and> distinctRefs s) (steps (closeStep strategy hist d prev) (positions st) st)"
    using closeLoop_invariant [of P strategy hist d prev st, OF cl Cons.prems] by simp
  have o: "P ?st2 \<and> distinctRefs ?st2
           \<and> list_all (\<lambda>s. P s \<and> distinctRefs s)
               (openTrace strategy hist d prev (symbols (simulationConfig strategy)) ?st1)"
    using openLoop_invariant [of P "set (symbols (simulationConfig strategy))" strategy hist d prev ?st1
             "symbols (simulationConfig strategy)", OF op] c
    by simp
  have st3: "?st3 = ?st2\<lparr>curve := curve ?st2 @ [\<lparr>eqDate = d, equity = portfolioValue hist d ?st2\<rparr>]\<rparr>"
    by (simp add: simulateDay_def Let_def)
  have P3: "P ?st3" unfolding st3 using cv o by blast
  have D3: "distinctRefs ?st3" unfolding st3 using o by (simp add: distinctRefs_def)
  from Cons.IH [OF P3 D3, of "Some d"] c o P3 D3 show ?case by simp
qed

subsection \<open>A run always returns\<close>

lemma forceClose_Inr:
  "list_all (\<lambda>p. hist (symbol p) \<noteq> []) ps
   \<Longrightarrow> forceClose hist ps ledger
       = Inr (ledger @ map (\<lambda>p. closeAtLast (last (hist (symbol p))) p) ps)"
  by (induction ps arbitrary: ledger) auto

lemma findBar_Some_nonempty: "findBar hist symb d = Some b \<Longrightarrow> hist symb \<noteq> []"
  by (auto simp: findBar_def)

lemma findBar_Some_mem: "findBar hist symb d = Some b \<Longrightarrow> b \<in> set (hist symb) \<and> date b = d"
  by (auto simp: findBar_def find_Some_iff)

lemma closeStep_list_all_positions:
  "list_all Q (positions st) \<Longrightarrow> list_all Q (positions (closeStep strategy hist cur prev p st))"
  using closeStep_positions_subset [of strategy hist cur prev p st]
  by (auto simp: list_all_iff)

lemma openStep_list_all_positions:
  assumes "list_all Q (positions st)"
    and "\<And>b t. findBar hist symb cur = Some b \<Longrightarrow> symbol t = symb \<Longrightarrow> entryDate t = cur
           \<Longrightarrow> entryPrice t = close b
           \<Longrightarrow> quantity t = \<lfloor>positionValue (simulationConfig strategy) / close b\<rfloor>
           \<Longrightarrow> quantity t \<noteq> 0 \<Longrightarrow> status t = Open \<Longrightarrow> Q t"
  shows "list_all Q (positions (openStep strategy hist cur prev symb st))"
  using assms by (auto simp: openStep_def Let_def split: option.split)

lemma dayLoop_hasSeries:
  assumes "hasSeries hist (symbols (simulationConfig strategy)) st" and "distinctRefs st"
  shows "hasSeries hist (symbols (simulationConfig strategy)) (dayLoop strategy hist prev ds st)"
proof -
  let ?P = "hasSeries hist (symbols (simulationConfig strategy))"
  have "?P (dayLoop strategy hist prev ds st)
        \<and> distinctRefs (dayLoop strategy hist prev ds st)
        \<and> list_all (\<lambda>s. ?P s \<and> distinctRefs s) (dayTrace strategy hist prev ds st)"
  proof (rule dayLoop_invariant [where P = ?P])
    fix cur prev p s assume "?P s"
    then show "?P (closeStep strategy hist cur prev p s)"
      unfolding hasSeries_def by (rule closeStep_list_all_positions)
  next
    fix cur prev symb s
    assume "?P s" and "symb \<in> set (symbols (simulationConfig strategy))"
    then show "?P (openStep strategy hist cur prev symb s)"
      unfolding hasSeries_def
      by (intro openStep_list_all_positions) (auto dest: findBar_Some_nonempty)
  next
    fix s pts assume "?P s"
    then show "?P (s\<lparr>curve := pts\<rparr>)" by (simp add: hasSeries_def)
  qed (use assms in auto)
  then show ?thesis by simp
qed

lemma distinctRefs_initial: "distinctRefs (initialPortfolio cfg)"
  by (simp add: distinctRefs_def initialPortfolio_def)

lemma afterLoop_hasSeries:
  "hasSeries (historicalDataBySymbol getHistoricalData (simulationConfig strategy))
     (symbols (simulationConfig strategy)) (afterLoop strategy getHistoricalData)"
  unfolding afterLoop_def Let_def
  by (rule dayLoop_hasSeries) (simp_all add: hasSeries_def initialPortfolio_def distinctRefs_def)

lemma runSimulation_returns:
  "runSimulation strategy getHistoricalData
   = Inr (computeResults (simulationConfig strategy)
            (finalLedger strategy getHistoricalData)
            (curve (afterLoop strategy getHistoricalData)))"
proof -
  let ?hist = "historicalDataBySymbol getHistoricalData (simulationConfig strategy)"
  let ?st = "afterLoop strategy getHistoricalData"
  have "list_all (\<lambda>p. ?hist (symbol p) \<noteq> []) (positions ?st)"
    using afterLoop_hasSeries [of getHistoricalData strategy]
    by (simp add: hasSeries_def list_all_iff)
  then have "forceClose ?hist (positions ?st) (allTrades ?st)
             = Inr (finalLedger strategy getHistoricalData)"
    by (simp add: forceClose_Inr finalLedger_def Let_def)
  then show ?thesis
    by (simp add: runSimulation_def afterLoop_def Let_def)
qed

lemma computeResults_fields:
  "trades (computeResults cfg ledger eqs) = ledger"
  "equityCurve (computeResults cfg ledger eqs) = eqs"
  "drawdowns (computeResults cfg ledger eqs) = drawdownLoop (initialCapital cfg) eqs"
  "totalPnl (computeResults cfg ledger eqs) = finalCapital eqs (initialCapital cfg) - initialCapital cfg"
  "totalTrades (metrics (computeResults cfg ledger eqs)) = int (length ledger)"
  "winningTrades (metrics (computeResults cfg ledger eqs))
     = int (length (filter (\<lambda>t. pnlOrZero t > 0) ledger))"
  "losingTrades (metrics (computeResults cfg ledger eqs))
     = int (length ledger) - int (length (filter (\<lambda>t. pnlOrZero t > 0) ledger))"
  "maxDrawdown (metrics (computeResults cfg ledger eqs))
     = maxDrawdownOf (drawdownLoop (initialCapital cfg) eqs)"
  by (simp_all add: computeResults_def Let_def)

subsection \<open>Evaluating the examples\<close>

lemmas run_defs =
  afterLoop_def loopStates_def allDates_def historicalDataBySymbol_def initialPortfolio_def
  simulateDay_def closeLoop_def closeStep_def openStep_def findBar_def findPreviousBar_def
  shouldSell_def shouldBuy_def passesScanner_def sellConditionMet_def evaluateCondition_def
  falsy_def resolveIndicator_def applyOperator_def compareWith_def strictEquals_def
  positionValue_def portfolioValue_def
  runSimulation_def computeResults_def closeAtLast_def finalCapital_def maxDrawdownOf_def
  grossProfit_def grossLoss_def pnlOrZero_def pnlPercentageOrZero_def Let_def

lemmas example_defs =
  mkBar_def priceAbove_def takeProfit_def stopLoss_def providerA_def strategyA_def

lemma runSimulation_strategyA: "runSimulation strategyA providerA = Inr resultA"
  by (simp add: run_defs example_defs resultA_def)

subsection \<open>Trade counts\<close>

lemma count_not_winning:
  "int (length ts) - int (length (filter (\<lambda>t. pnlOrZero t > 0) ts))
   = int (length (filter (\<lambda>t. pnlOrZero t \<le> 0) ts))"
proof -
  have "length (filter (\<lambda>t. pnlOrZero t > 0) ts) + length (filter (\<lambda>t. \<not> pnlOrZero t > 0) ts)
        = length ts"
    by (rule sum_length_filter_compl)
  moreover have "(\<lambda>t. \<not> pnlOrZero t > 0) = (\<lambda>t. pnlOrZero t \<le> 0)"
    by (auto simp: not_less)
  ultimately show ?thesis by simp
qed

lemma grossProfit_without_zero:
  "grossProfit (filter (\<lambda>t. pnlOrZero t \<noteq> 0) ts) = grossProfit ts"
proof -
  have "(\<lambda>t. pnlOrZero t \<noteq> 0 \<and> pnlOrZero t > 0) = (\<lambda>t. pnlOrZero t > 0)" by auto
  then show ?thesis by (simp add: grossProfit_def)
qed

lemma grossLoss_without_zero:
  "grossLoss (filter (\<lambda>t. pnlOrZero t \<noteq> 0) ts) = grossLoss ts"
proof -
  have "(\<lambda>t. pnlOrZero t \<noteq> 0 \<and> pnlOrZero t < 0) = (\<lambda>t. pnlOrZero t < 0)" by auto
  then show ?thesis by (simp add: grossLoss_def)
qed

text \<open>
  C10. In the metrics of every run, \<open>losingTrades\<close> is \<open>totalTrades - winningTrades\<close>.
  It is therefore the number of trades whose \<open>pnl\<close> is not positive, so a trade closed
  with a \<open>pnl\<close> of exactly 0 counts as losing; such a trade is in neither of the sums
  \<open>grossProfit\<close> and \<open>grossLoss\<close> of the profit factor, which are the same with
  and without the trades of zero \<open>pnl\<close>.
\<close>

theorem losingTrades_counts_the_rest:
  assumes "runSimulation strategy getHistoricalData = Inr r"
  shows "losingTrades (metrics r) = totalTrades (metrics r) - winningTrades (metrics r)
       \<and> losingTrades (metrics r) = int (length (filter (\<lambda>t. pnlOrZero t \<le> 0) (trades r)))
       \<and> grossProfit (filter (\<lambda>t. pnlOrZero t \<noteq> 0) (trades r)) = grossProfit (trades r)
       \<and> grossLoss (filter (\<lambda>t. pnlOrZero t \<noteq> 0) (trades r)) = grossLoss (trades r)"
proof -
  have r: "r = computeResults (simulationConfig strategy)
                 (finalLedger strategy getHistoricalData)
                 (curve (afterLoop strategy getHistoricalData))"
    using assms runSimulation_returns [of strategy getHistoricalData] by simp
  have "losingTrades (metrics r) = totalTrades (metrics r) - winningTrades (metrics r)"
    unfolding r by (simp add: computeResults_fields)
  moreover have "losingTrades (metrics r)
                 = int (length (filter (\<lambda>t. pnlOrZero t \<le> 0) (trades r)))"
    unfolding r by (simp add: computeResults_fields count_not_winning)
  ultimately show ?thesis
    by (simp add: grossProfit_without_zero grossLoss_without_zero)
qed

text \<open>The example run has two winning trades and one of zero \<open>pnl\<close>, the position
  bought and force-closed at the last day's close: it is the one losing trade.\<close>

theorem losingTrades_counts_the_rest_witness:
  "runSimulation strategyA providerA = Inr resultA
   \<and> map pnlOrZero (trades resultA) = [50, 40, 0]
   \<and> totalTrades (metrics resultA) = 3 \<and> winningTrades (metrics resultA) = 2
   \<and> losingTrades (metrics resultA) = totalTrades (metrics resultA) - winningTrades (metrics resultA)
   \<and> losingTrades (metrics resultA)
       = int (length (filter (\<lambda>t. pnlOrZero t \<le> 0) (trades resultA)))
   \<and> grossProfit (filter (\<lambda>t. pnlOrZero t \<noteq> 0) (trades resultA)) = 90
   \<and> grossLoss (filter (\<lambda>t. pnlOrZero t \<noteq> 0) (trades resultA)) = 0"
  using losingTrades_counts_the_rest [OF runSimulation_strategyA] runSimulation_strategyA
  by (simp add: resultA_def pnlOrZero_def grossProfit_def grossLoss_def)

subsection \<open>The equity curve has one point per trading day\<close>

lemma closeStep_curve: "curve (closeStep strategy hist cur prev p st) = curve st"
  by (simp add: closeStep_def split: option.split)

lemma fold_closeStep_curve: "curve (fold (closeStep strategy hist cur prev) ps st) = curve st"
  by (induction ps arbitrary: st) (simp_all add: closeStep_curve)

lemma openStep_curve: "curve (openStep strategy hist cur prev symb st) = curve st"
  by (simp add: openStep_def Let_def split: option.split)

lemma openLoop_curve: "curve (openLoop strategy hist cur prev symbs st) = curve st"
  by (induction symbs arbitrary: st) (simp_all add: openStep_curve)

lemma simulateDay_curve:
  "map eqDate (curve (simulateDay strategy hist prev d st)) = map eqDate (curve st) @ [d]"
  by (simp add: simulateDay_def Let_def openLoop_curve closeLoop_def fold_closeStep_curve)

lemma dayLoop_curve_dates:
  "map eqDate (curve (dayLoop strategy hist prev ds st)) = map eqDate (curve st) @ ds"
  by (induction ds arbitrary: st prev) (simp_all add: simulateDay_curve)

lemma afterLoop_curve_dates:
  "map eqDate (curve (afterLoop strategy getHistoricalData))
   = allDates getHistoricalData (simulationConfig strategy)"
  by (simp add: afterLoop_def Let_def dayLoop_curve_dates initialPortfolio_def)

subsection \<open>Configuration invariants\<close>

text \<open>
  C2 (as amended). \<open>runSimulation\<close> does not validate its configuration. For every
  configuration that violates the invariants (an initial capital that is not positive, an
  empty symbol list, a position size outside \<open>(0, 100]\<close>) the run is not rejected: it goes
  through the day loop, appending one equity point per trading day, and returns a result.
\<close>

theorem no_validation_before_loop:
  assumes "violatesInvariants (simulationConfig strategy)"
  shows "\<exists>r. runSimulation strategy getHistoricalData = Inr r
           \<and> map eqDate (equityCurve r) = allDates getHistoricalData (simulationConfig strategy)"
  by (simp add: runSimulation_returns computeResults_fields afterLoop_curve_dates)

text \<open>A position size of 150 percent violates the invariants; the run has three trading
  days and returns.\<close>

theorem no_validation_before_loop_witness:
  "violatesInvariants (simulationConfig strategyOversized)
   \<and> allDates providerA (simulationConfig strategyOversized) = [''2024-01-01'', ''2024-01-02'', ''2024-01-03'']
   \<and> (\<exists>r. runSimulation strategyOversized providerA = Inr r
          \<and> map eqDate (equityCurve r) = allDates providerA (simulationConfig strategyOversized))"
proof -
  have v: "violatesInvariants (simulationConfig strategyOversized)"
    by (simp add: violatesInvariants_def strategyOversized_def strategyA_def)
  have "allDates providerA (simulationConfig strategyOversized) = [''2024-01-01'', ''2024-01-02'', ''2024-01-03'']"
    by (simp add: run_defs example_defs strategyOversized_def)
  with v no_validation_before_loop [OF v, of providerA] show ?thesis by simp
qed

text \<open>
  C2 as stated fails: the run with a position size of 150 percent is not rejected before
  the loop. The loop runs over the three days (no buy is affordable) and the run returns
  an empty ledger and a flat equity curve.
\<close>

theorem invalid_configuration_runs:
  "violatesInvariants (simulationConfig strategyOversized)
   \<and> (\<exists>r. runSimulation strategyOversized providerA = Inr r
          \<and> trades r = []
          \<and> equityCurve r = [\<lparr> eqDate = ''2024-01-01'', equity = 1000 \<rparr>,
                             \<lparr> eqDate = ''2024-01-02'', equity = 1000 \<rparr>,
                             \<lparr> eqDate = ''2024-01-03'', equity = 1000 \<rparr>])"
  by (simp add: violatesInvariants_def run_defs example_defs strategyOversized_def)

subsection \<open>A strategy without buy conditions\<close>

lemma shouldBuy_no_conditions:
  "buyCfg = None \<or> buyCfg = Some [] \<Longrightarrow> shouldBuy buyCfg b prevBar = False"
  by (auto simp: shouldBuy_def)

lemma openStep_no_buy:
  assumes "buyConfig strategy = None \<or> buyConfig strategy = Some []"
  shows "openStep strategy hist cur prev symb st = st"
  using shouldBuy_no_conditions [OF assms]
  by (simp add: openStep_def Let_def split: option.split)

lemma openLoop_no_buy:
  assumes "buyConfig strategy = None \<or> buyConfig strategy = Some []"
  shows "openLoop strategy hist cur prev symbs st = st"
  by (induction symbs) (simp_all add: openStep_no_buy [OF assms])

lemma openTrace_no_buy:
  assumes "buyConfig strategy = None \<or> buyConfig strategy = Some []"
  shows "list_all (\<lambda>s. s = st) (openTrace strategy hist cur prev symbs st)"
  by (induction symbs) (simp_all add: openStep_no_buy [OF assms])

lemma simulateDay_no_buy:
  assumes "buyConfig strategy = None \<or> buyConfig strategy = Some []"
    and "positions st = []"
  shows "simulateDay strategy hist prev d st
         = st\<lparr>curve := curve st @ [\<lparr>eqDate = d, equity = cash st\<rparr>]\<rparr>"
  using assms(2)
  by (simp add: simulateDay_def Let_def closeLoop_def openLoop_no_buy [OF assms(1)]
                portfolioValue_def)

lemma dayLoop_no_buy:
  assumes "buyConfig strategy = None \<or> buyConfig strategy = Some []"
  shows "positions st = []
         \<Longrightarrow> dayLoop strategy hist prev ds st
             = st\<lparr>curve := curve st @ map (\<lambda>d. \<lparr>eqDate = d, equity = cash st\<rparr>) ds\<rparr>"
proof (induction ds arbitrary: st prev)
  case Nil
  then show ?case by simp
next
  case (Cons d ds)
  let ?st' = "st\<lparr>curve := curve st @ [\<lparr>eqDate = d, equity = cash st\<rparr>]\<rparr>"
  have "positions ?st' = []" using Cons.prems by simp
  from Cons.IH [OF this, of "Some d"] show ?case
    by (simp add: simulateDay_no_buy [OF assms Cons.prems])
qed

lemma dayTrace_no_buy:
  assumes "buyConfig strategy = None \<or> buyConfig strategy = Some []"
  shows "positions st = []
         \<Longrightarrow> list_all (\<lambda>s. positions s = [] \<and> allTrades s = allTrades st \<and> cash s = cash st)
               (dayTrace strategy hist prev ds st)"
proof (induction ds arbitrary: st prev)
  case Nil
  then show ?case by simp
next
  case (Cons d ds)
  let ?st' = "st\<lparr>curve := curve st @ [\<lparr>eqDate = d, equity = cash st\<rparr>]\<rparr>"
  have sd: "simulateDay strategy hist prev d st = ?st'"
    by (rule simulateDay_no_buy [OF assms Cons.prems])
  have "positions ?st' = []" using Cons.prems by simp
  from Cons.IH [OF this, of "Some d"]
  have rest: "list_all (\<lambda>s. positions s = [] \<and> allTrades s = allTrades st \<and> cash s = cash st)
                (dayTrace strategy hist (Some d) ds ?st')"
    by simp
  have "list_all (\<lambda>s. s = st)
          (openTrace strategy hist d prev (symbols (simulationConfig strategy)) st)"
    by (rule openTrace_no_buy [OF assms])
  then have "list_all (\<lambda>s. positions s = [] \<and> allTrades s = allTrades st \<and> cash s = cash st)
          (openTrace strategy hist d prev (symbols (simulationConfig strategy)) st)"
    using Cons.prems by (auto simp: list_all_iff)
  with rest show ?case
    using Cons.prems by (simp add: sd closeLoop_def)
qed

text \<open>
  C8. When the buy rule set has no conditions (the \<open>conditions\<close> property is absent or
  an empty array), \<open>shouldBuy\<close> is false for every bar, no state of the day loop has an
  open position or a closed trade, and the cash stays the initial capital. The run returns
  an empty ledger and an equity curve with one point per trading day, each equal to the
  initial capital.
\<close>

theorem empty_buy_rules_never_trade:
  assumes "buyConfig strategy = None \<or> buyConfig strategy = Some []"
  shows "shouldBuy (buyConfig strategy) b prevBar = False
       \<and> list_all (\<lambda>s. positions s = [] \<and> allTrades s = []
                          \<and> cash s = initialCapital (simulationConfig strategy))
                  (loopStates strategy getHistoricalData)
       \<and> (\<exists>r. runSimulation strategy getHistoricalData = Inr r
              \<and> trades r = []
              \<and> equityCurve r
                  = map (\<lambda>d. \<lparr>eqDate = d, equity = initialCapital (simulationConfig strategy)\<rparr>)
                        (allDates getHistoricalData (simulationConfig strategy)))"
proof -
  let ?cfg = "simulationConfig strategy"
  let ?hist = "historicalDataBySymbol getHistoricalData ?cfg"
  let ?ds = "allDates getHistoricalData ?cfg"
  let ?st0 = "initialPortfolio ?cfg"
  have p0: "positions ?st0 = []" by (simp add: initialPortfolio_def)
  have al: "afterLoop strategy getHistoricalData
            = ?st0\<lparr>curve := curve ?st0 @ map (\<lambda>d. \<lparr>eqDate = d, equity = cash ?st0\<rparr>) ?ds\<rparr>"
    unfolding afterLoop_def Let_def by (rule dayLoop_no_buy [OF assms p0])
  have ledger: "finalLedger strategy getHistoricalData = []"
    by (simp add: finalLedger_def Let_def al initialPortfolio_def)
  have run: "trades (computeResults ?cfg (finalLedger strategy getHistoricalData)
                       (curve (afterLoop strategy getHistoricalData))) = []
             \<and> equityCurve (computeResults ?cfg (finalLedger strategy getHistoricalData)
                       (curve (afterLoop strategy getHistoricalData)))
                 = map (\<lambda>d. \<lparr>eqDate = d, equity = initialCapital ?cfg\<rparr>) ?ds"
    by (simp add: computeResults_fields ledger al initialPortfolio_def)
  have states: "list_all (\<lambda>s. positions s = [] \<and> allTrades s = [] \<and> cash s = initialCapital ?cfg)
                  (loopStates strategy getHistoricalData)"
    using dayTrace_no_buy [OF assms p0, of ?hist None ?ds]
    by (simp add: loopStates_def Let_def initialPortfolio_def)
  show ?thesis
    using shouldBuy_no_conditions [OF assms] states run
    by (simp add: runSimulation_returns)
qed

text \<open>The example without buy conditions: seven loop states over three days, all flat.\<close>

theorem empty_buy_rules_never_trade_witness:
  "(buyConfig strategyNoBuy = None \<or> buyConfig strategyNoBuy = Some [])
   \<and> shouldBuy (buyConfig strategyNoBuy) (mkBar ''2024-01-01'' 100) None = False
   \<and> length (loopStates strategyNoBuy providerA) = 7
   \<and> list_all (\<lambda>s. positions s = [] \<and> allTrades s = [] \<and> cash s = 1000)
        (loopStates strategyNoBuy providerA)
   \<and> (\<exists>r. runSimulation strategyNoBuy providerA = Inr r
          \<and> trades r = []
          \<and> equityCurve r = [\<lparr> eqDate = ''2024-01-01'', equity = 1000 \<rparr>,
                             \<lparr> eqDate = ''2024-01-02'', equity = 1000 \<rparr>,
                             \<lparr> eqDate = ''2024-01-03'', equity = 1000 \<rparr>])"
proof -
  have nb: "buyConfig strategyNoBuy = None \<or> buyConfig strategyNoBuy = Some []"
    by (simp add: strategyNoBuy_def)
  have cfg: "initialCapital (simulationConfig strategyNoBuy) = 1000"
    by (simp add: strategyNoBuy_def strategyA_def)
  have ds: "allDates providerA (simulationConfig strategyNoBuy) = [''2024-01-01'', ''2024-01-02'', ''2024-01-03'']"
    by (simp add: run_defs example_defs strategyNoBuy_def)
  have len: "length (loopStates strategyNoBuy providerA) = 7"
    by (simp add: run_defs example_defs strategyNoBuy_def)
  from empty_buy_rules_never_trade [OF nb, of "mkBar ''2024-01-01'' 100" None providerA] nb len
  show ?thesis by (simp add: cfg ds)
qed

subsection \<open>The position limit\<close>

lemma closeStep_length:
  "length (positions (closeStep strategy hist cur prev p st)) \<le> length (positions st)"
  using closeStep_positions_cases [of strategy hist cur prev p st]
  by (auto simp: le_trans [OF length_filter_le])

lemma openStep_length:
  "length (positions (openStep strategy hist cur prev symb st)) \<le> Suc (length (positions st))"
  by (simp add: openStep_def Let_def split: option.split)

lemma openLoop_at_limit:
  "real (length (positions st)) \<ge> maxPositions (simulationConfig strategy)
   \<Longrightarrow> openLoop strategy hist cur prev symbs st = st"
  by (cases symbs) simp_all

text \<open>The examples with two symbols and with non-positive amounts.\<close>

lemmas example_two_defs = providerTwo_def strategyTwo_def providerRise_def
  strategyNegativeCapital_def strategyNegativeSize_def

text \<open>
  C3 as stated fails for a limit that is not a whole number. With \<open>maxPositions = 1.5\<close>
  and two symbols that both signal a buy, the test \<open>positions.length >= maxPositions\<close> is
  false at one open position, so the second symbol is bought as well: two positions are
  open, more than \<open>maxPositions\<close>.
\<close>

theorem fractional_limit_exceeded:
  "maxPositions (simulationConfig (strategyTwo (3 / 2))) = 3 / 2
   \<and> map (\<lambda>st. length (positions st)) (loopStates (strategyTwo (3 / 2)) providerTwo)
       = [0, 1, 2, 2, 2, 2, 2]
   \<and> map symbol (positions (afterLoop (strategyTwo (3 / 2)) providerTwo)) = [''A'', ''B'']
   \<and> \<not> list_all (\<lambda>st. real (length (positions st))
                           \<le> maxPositions (simulationConfig (strategyTwo (3 / 2))))
              (loopStates (strategyTwo (3 / 2)) providerTwo)"
  by (simp add: run_defs example_defs example_two_defs)

text \<open>
  C3 (as amended). In every state of the day loop (after each sell iteration, after each
  buy iteration, after each day) the number of open positions is at most \<open>maxPositions\<close>
  rounded up to a whole number, and 0 for a \<open>maxPositions\<close> below 0. So when
  \<open>maxPositions\<close> is a whole number \<open>m\<close> that is not negative, the number of open positions
  never exceeds \<open>maxPositions\<close>. The buy loop takes the symbols in their configured order,
  the first before the rest, and once the number of open positions has reached
  \<open>maxPositions\<close> it opens nothing more that day, whatever symbols remain.
\<close>

theorem open_positions_bounded:
  "list_all (\<lambda>st. int (length (positions st))
                    \<le> max 0 \<lceil>maxPositions (simulationConfig strategy)\<rceil>)
            (loopStates strategy getHistoricalData)
   \<and> (maxPositions (simulationConfig strategy) = real m
        \<longrightarrow> list_all (\<lambda>st. length (positions st) \<le> m) (loopStates strategy getHistoricalData))
   \<and> (\<forall>hist cur prev symbs st.
        real (length (positions st)) \<ge> maxPositions (simulationConfig strategy)
        \<longrightarrow> openLoop strategy hist cur prev symbs st = st)
   \<and> (\<forall>hist cur prev symb symbs st.
        real (length (positions st)) < maxPositions (simulationConfig strategy)
        \<longrightarrow> openLoop strategy hist cur prev (symb # symbs) st
            = openLoop strategy hist cur prev symbs (openStep strategy hist cur prev symb st))"
proof -
  let ?cfg = "simulationConfig strategy"
  let ?hist = "historicalDataBySymbol getHistoricalData ?cfg"
  let ?top = "max 0 \<lceil>maxPositions ?cfg\<rceil>"
  let ?P = "\<lambda>st::portfolio. int (length (positions st)) \<le> ?top"
  have "?P (dayLoop strategy ?hist None (allDates getHistoricalData ?cfg) (initialPortfolio ?cfg))
        \<and> distinctRefs (dayLoop strategy ?hist None (allDates getHistoricalData ?cfg) (initialPortfolio ?cfg))
        \<and> list_all (\<lambda>s. ?P s \<and> distinctRefs s)
            (dayTrace strategy ?hist None (allDates getHistoricalData ?cfg) (initialPortfolio ?cfg))"
  proof (rule dayLoop_invariant [where P = ?P])
    fix cur prev p and s :: portfolio assume "?P s"
    then show "?P (closeStep strategy ?hist cur prev p s)"
      using closeStep_length [of strategy ?hist cur prev p s] by simp
  next
    fix cur prev symb and s :: portfolio
    assume "real (length (positions s)) < maxPositions ?cfg"
    then have "of_int (int (length (positions s))) < maxPositions ?cfg" by simp
    then have "int (length (positions s)) < \<lceil>maxPositions ?cfg\<rceil>"
      by (simp only: less_ceiling_iff)
    then show "?P (openStep strategy ?hist cur prev symb s)"
      using openStep_length [of strategy ?hist cur prev symb s] by simp
  next
    fix pts and s :: portfolio assume "?P s"
    then show "?P (s\<lparr>curve := pts\<rparr>)" by simp
  next
    show "?P (initialPortfolio ?cfg)" by (simp add: initialPortfolio_def)
  next
    show "distinctRefs (initialPortfolio ?cfg)" by (rule distinctRefs_initial)
  qed
  then have general: "list_all ?P (loopStates strategy getHistoricalData)"
    by (simp add: loopStates_def Let_def initialPortfolio_def list_all_iff)
  have whole: "list_all (\<lambda>st. length (positions st) \<le> m) (loopStates strategy getHistoricalData)"
    if "maxPositions ?cfg = real m"
  proof -
    have "?top = int m" using that by simp
    then show ?thesis using general by (simp add: list_all_iff)
  qed
  show ?thesis using general whole by (simp add: openLoop_at_limit)
qed

text \<open>With a limit of one position the first symbol is bought and the second is not, on
  either day; with a limit of a thousand both are bought.\<close>

theorem open_positions_bounded_witness:
  "maxPositions (simulationConfig (strategyTwo 1)) = real 1
   \<and> map (\<lambda>st. length (positions st)) (loopStates (strategyTwo 1) providerTwo) = [0, 1, 1, 1, 1]
   \<and> map symbol (positions (afterLoop (strategyTwo 1) providerTwo)) = [''A'']
   \<and> list_all (\<lambda>st. length (positions st) \<le> 1) (loopStates (strategyTwo 1) providerTwo)
   \<and> openLoop (strategyTwo 1)
        (historicalDataBySymbol providerTwo (simulationConfig (strategyTwo 1)))
        ''2024-01-02'' (Some ''2024-01-01'') [''A'', ''B''] (afterLoop (strategyTwo 1) providerTwo)
      = afterLoop (strategyTwo 1) providerTwo
   \<and> map (\<lambda>st. length (positions st)) (loopStates (strategyTwo 1000) providerTwo)
       = [0, 1, 2, 2, 2, 2, 3, 4, 4]"
proof -
  let ?st = "afterLoop (strategyTwo 1) providerTwo"
  have m: "maxPositions (simulationConfig (strategyTwo 1)) = real 1"
    by (simp add: strategyTwo_def)
  have counts: "map (\<lambda>st. length (positions st)) (loopStates (strategyTwo 1) providerTwo)
                = [0, 1, 1, 1, 1]"
    by (simp add: run_defs example_defs example_two_defs)
  have held: "map symbol (positions ?st) = [''A'']"
    by (simp add: run_defs example_defs example_two_defs)
  then have "length (map symbol (positions ?st)) = 1" by simp
  then have full: "real (length (positions ?st)) \<ge> maxPositions (simulationConfig (strategyTwo 1))"
    using m by simp
  have wide: "map (\<lambda>st. length (positions st)) (loopStates (strategyTwo 1000) providerTwo)
              = [0, 1, 2, 2, 2, 2, 3, 4, 4]"
    by (simp add: run_defs example_defs example_two_defs)
  from open_positions_bounded [of "strategyTwo 1" providerTwo 1] m full counts held wide
  show ?thesis by simp
qed

subsection \<open>Cash\<close>


lemma floor_quantity_nonneg:
  fixes v c :: real
  assumes "0 < c" and "0 \<le> v"
  shows "0 \<le> \<lfloor>v / c\<rfloor>"
  using assms by simp









subsection \<open>Drawdown\<close>

lemma drawdownLoop_length: "length (drawdownLoop peak eqs) = length eqs"
  by (induction eqs arbitrary: peak) (simp_all add: Let_def)

lemma drawdownLoop_dates: "map ddDate (drawdownLoop peak eqs) = map eqDate eqs"
  by (induction eqs arbitrary: peak) (simp_all add: Let_def)

lemma peak_update_max: "(if e > peak then e else peak) = max peak (e::real)"
  by (simp add: max_def)

lemma drawdownLoop_nonneg:
  "0 < peak \<Longrightarrow> list_all (\<lambda>d. 0 \<le> drawdown d) (drawdownLoop peak eqs)"
proof (induction eqs arbitrary: peak)
  case Nil
  then show ?case by simp
next
  case (Cons pt pts)
  let ?peak' = "max peak (equity pt)"
  have pos: "0 < ?peak'" using Cons.prems by (simp add: max_def)
  have "0 \<le> (?peak' - equity pt) / ?peak' * 100"
    using pos by (simp add: max_def)
  with Cons.IH [OF pos] show ?case by (simp add: Let_def peak_update_max)
qed

lemma fold_max_take_Suc:
  "i < length xs \<Longrightarrow> fold max (take (Suc i) xs) (a::real) = max (fold max (take i xs) a) (xs ! i)"
  by (simp add: take_Suc_conv_app_nth max.commute)

lemma drawdownLoop_nth:
  "i < length eqs \<Longrightarrow>
   drawdown (drawdownLoop peak eqs ! i)
   = (peakAt peak eqs i - equity (eqs ! i)) / peakAt peak eqs i * 100"
proof (induction eqs arbitrary: peak i)
  case Nil
  then show ?case by simp
next
  case (Cons pt pts)
  show ?case
  proof (cases i)
    case 0
    then show ?thesis by (simp add: Let_def peak_update_max peakAt_def max.commute)
  next
    case (Suc j)
    then have "j < length pts" using Cons.prems by simp
    from Cons.IH [OF this, of "max peak (equity pt)"] Suc show ?thesis
      by (simp add: Let_def peak_update_max peakAt_def max.commute)
  qed
qed

lemma fold_max_ge_init: "(a::real) \<le> fold max xs a"
proof (induction xs arbitrary: a)
  case Nil show ?case by simp
next
  case (Cons x xs)
  have "a \<le> max x a" by simp
  also have "\<dots> \<le> fold max xs (max x a)" by (rule Cons.IH)
  finally show ?case by simp
qed

lemma fold_max_Max:
  "fold max xs (a::real) = Max (insert a (set xs))"
proof (induction xs arbitrary: a)
  case Nil show ?case by simp
next
  case (Cons x xs)
  have "fold max (x # xs) a = Max (insert (max x a) (set xs))" by (simp add: Cons.IH)
  also have "\<dots> = Max (insert a (insert x (set xs)))"
    by (cases "xs = []") (simp_all add: max.assoc max.commute max.left_commute)
  finally show ?case by simp
qed

lemma maxDrawdownOf_Max:
  assumes "list_all (\<lambda>d. 0 \<le> drawdown d) dds"
  shows "maxDrawdownOf dds = (if dds = [] then 0 else Max (set (map drawdown dds)))"
proof (cases "dds = []")
  case True
  then show ?thesis by (simp add: maxDrawdownOf_def)
next
  case False
  let ?S = "set (map drawdown dds)"
  have ne: "?S \<noteq> {}" using False by simp
  have "0 \<le> Max ?S"
  proof -
    obtain d where d: "d \<in> set dds" using False by (cases dds) auto
    then have "0 \<le> drawdown d" using assms by (simp add: list_all_iff)
    also have "drawdown d \<le> Max ?S" using d by (intro Max_ge) auto
    finally show ?thesis .
  qed
  then have "Max (insert 0 ?S) = Max ?S"
    using ne by (simp add: max_def)
  then show ?thesis using False by (simp add: maxDrawdownOf_def fold_max_Max)
qed

text \<open>The second example.\<close>

lemmas example_dip_defs = providerDip_def strategyHold_def

text \<open>
  C7 as stated fails for an initial capital that is not positive. With
  \<open>initialCapital = -1000\<close> and \<open>positionSize = 100\<close> the quantity bought at 100 is -10 and
  the first equity is -1000, the peak. The symbol rises to 110, the equity falls to -1100
  and the drawdown \<open>(-1000 - (-1100)) / -1000 * 100\<close> is -10.
\<close>

theorem negative_capital_negative_drawdown:
  "initialCapital (simulationConfig strategyNegativeCapital) = - 1000
   \<and> (\<exists>r. runSimulation strategyNegativeCapital (providerRise 110) = Inr r
          \<and> map equity (equityCurve r) = [- 1000, - 1100]
          \<and> map drawdown (drawdowns r) = [0, - 10]
          \<and> \<not> list_all (\<lambda>d. 0 \<le> drawdown d) (drawdowns r))"
  by (simp add: run_defs example_defs example_two_defs)

text \<open>
  C7 (as amended). For a positive initial capital (and positive closing prices, so that
  every equity is a number), every point of the drawdown series a run returns is at least
  0. The series has one point per point of the equity curve, with the same date, and the
  drawdown at point \<open>i\<close> is \<open>(peak - equity) / peak * 100\<close>, where \<open>peak\<close> is the
  running peak at \<open>i\<close>: the largest of the initial capital and the equities up to \<open>i\<close>.
  \<open>maxDrawdown\<close> is the largest drawdown of the series, and 0 when the series is empty.
\<close>

theorem drawdowns_nonnegative:
  assumes run: "runSimulation strategy getHistoricalData = Inr r"
    and ic: "0 < initialCapital (simulationConfig strategy)"
    and pp: "pricesPositive getHistoricalData (simulationConfig strategy)"
  shows "list_all (\<lambda>d. 0 \<le> drawdown d) (drawdowns r)
       \<and> map ddDate (drawdowns r) = map eqDate (equityCurve r)
       \<and> (\<forall>i < length (equityCurve r).
            drawdown (drawdowns r ! i)
            = (peakAt (initialCapital (simulationConfig strategy)) (equityCurve r) i
                 - equity (equityCurve r ! i))
              / peakAt (initialCapital (simulationConfig strategy)) (equityCurve r) i * 100)
       \<and> maxDrawdown (metrics r)
           = (if drawdowns r = [] then 0 else Max (set (map drawdown (drawdowns r))))"
proof -
  let ?ic = "initialCapital (simulationConfig strategy)"
  have r: "r = computeResults (simulationConfig strategy)
                 (finalLedger strategy getHistoricalData)
                 (curve (afterLoop strategy getHistoricalData))"
    using run runSimulation_returns [of strategy getHistoricalData] by simp
  have dd: "drawdowns r = drawdownLoop ?ic (equityCurve r)"
    unfolding r by (simp add: computeResults_fields)
  have md: "maxDrawdown (metrics r) = maxDrawdownOf (drawdowns r)"
    unfolding r by (simp add: computeResults_fields)
  have nonneg: "list_all (\<lambda>d. 0 \<le> drawdown d) (drawdowns r)"
    unfolding dd using ic by (rule drawdownLoop_nonneg)
  have dates: "map ddDate (drawdowns r) = map eqDate (equityCurve r)"
    unfolding dd by (rule drawdownLoop_dates)
  have pointwise: "\<forall>i < length (equityCurve r).
            drawdown (drawdowns r ! i)
            = (peakAt ?ic (equityCurve r) i - equity (equityCurve r ! i))
              / peakAt ?ic (equityCurve r) i * 100"
    unfolding dd by (simp add: drawdownLoop_nth)
  have "maxDrawdown (metrics r)
        = (if drawdowns r = [] then 0 else Max (set (map drawdown (drawdowns r))))"
    unfolding md using nonneg by (rule maxDrawdownOf_Max)
  with nonneg dates pointwise show ?thesis by simp
qed

text \<open>The price dips from 100 to 90 and recovers to 95 while half the capital is invested:
  drawdowns of 0, 5 and 2.5 percent.\<close>

theorem drawdowns_nonnegative_witness:
  "0 < initialCapital (simulationConfig strategyHold)
   \<and> pricesPositive providerDip (simulationConfig strategyHold)
   \<and> (\<exists>r. runSimulation strategyHold providerDip = Inr r
          \<and> map equity (equityCurve r) = [1000, 950, 975]
          \<and> map drawdown (drawdowns r) = [0, 5, 5 / 2]
          \<and> list_all (\<lambda>d. 0 \<le> drawdown d) (drawdowns r)
          \<and> maxDrawdown (metrics r) = 5
          \<and> maxDrawdown (metrics r) = Max (set (map drawdown (drawdowns r))))"
proof -
  have ic: "0 < initialCapital (simulationConfig strategyHold)"
    by (simp add: strategyHold_def strategyA_def)
  have pp: "pricesPositive providerDip (simulationConfig strategyHold)"
    by (simp add: pricesPositive_def historicalDataBySymbol_def example_defs example_dip_defs)
  obtain r where run: "runSimulation strategyHold providerDip = Inr r"
    by (simp add: runSimulation_returns)
  have ev: "map equity (equityCurve r) = [1000, 950, 975]
            \<and> map drawdown (drawdowns r) = [0, 5, 5 / 2]
            \<and> maxDrawdown (metrics r) = 5"
    using run by (auto simp: run_defs example_defs example_dip_defs)
  from drawdowns_nonnegative [OF run ic pp] ev ic pp run show ?thesis by auto
qed

subsection \<open>The ledger and the equity curve\<close>

lemma invested_filter:
  assumes "distinct (map tref ps)" and "p \<in> set ps"
  shows "invested (filter (\<lambda>q. tref q \<noteq> tref p) ps)
         = invested ps - entryPrice p * of_int (quantity p)"
  using assms
proof (induction ps)
  case Nil
  then show ?case by simp
next
  case (Cons q ps)
  show ?case
  proof (cases "q = p")
    case True
    have "tref p \<notin> tref ` set ps" using Cons.prems(1) True by simp
    then have "\<forall>x \<in> set ps. tref x \<noteq> tref p" by (metis imageI)
    then have "filter (\<lambda>q. tref q \<noteq> tref p) ps = ps" by (simp add: filter_id_conv)
    then show ?thesis using True by (simp add: invested_def)
  next
    case False
    then have pin: "p \<in> set ps" using Cons.prems(2) by simp
    have "tref p \<in> tref ` set ps" using pin by simp
    moreover have "tref q \<notin> tref ` set ps" using Cons.prems(1) by simp
    ultimately have ne: "tref q \<noteq> tref p" by metis
    have "distinct (map tref ps)" using Cons.prems(1) by simp
    from Cons.IH [OF this pin] ne show ?thesis by (simp add: invested_def)
  qed
qed

lemma closeStep_balanced:
  assumes b: "balanced ic st" and d: "distinctRefs st" and p: "p \<in> set (positions st)"
  shows "balanced ic (closeStep strategy hist cur prev p st)"
proof -
  have inv: "invested (filter (\<lambda>q. tref q \<noteq> tref p) (positions st))
             = invested (positions st) - entryPrice p * of_int (quantity p)"
    using d p by (intro invested_filter) (simp_all add: distinctRefs_def)
  show ?thesis
    using b
    by (simp add: closeStep_def balanced_def inv ledgerPnl_def pnlOrZero_def algebra_simps
             split: option.split)
qed

lemma openStep_balanced:
  assumes "balanced ic st"
  shows "balanced ic (openStep strategy hist cur prev symb st)"
  using assms
  by (simp add: openStep_def balanced_def invested_def Let_def split: option.split)

lemma closeStep_closedTrades:
  assumes "list_all closedTrade (allTrades st)"
  shows "list_all closedTrade (allTrades (closeStep strategy hist cur prev p st))"
  using assms by (simp add: closeStep_def closedTrade_def split: option.split)

lemma openStep_allTrades: "allTrades (openStep strategy hist cur prev symb st) = allTrades st"
  by (simp add: openStep_def Let_def split: option.split)

lemma afterLoop_accounts:
  "balanced (initialCapital (simulationConfig strategy)) (afterLoop strategy getHistoricalData)
   \<and> list_all closedTrade (allTrades (afterLoop strategy getHistoricalData))"
proof -
  let ?cfg = "simulationConfig strategy"
  let ?hist = "historicalDataBySymbol getHistoricalData ?cfg"
  let ?P = "\<lambda>s. balanced (initialCapital ?cfg) s \<and> list_all closedTrade (allTrades s)"
  have "?P (dayLoop strategy ?hist None (allDates getHistoricalData ?cfg) (initialPortfolio ?cfg))
        \<and> distinctRefs (dayLoop strategy ?hist None (allDates getHistoricalData ?cfg) (initialPortfolio ?cfg))
        \<and> list_all (\<lambda>s. ?P s \<and> distinctRefs s)
            (dayTrace strategy ?hist None (allDates getHistoricalData ?cfg) (initialPortfolio ?cfg))"
  proof (rule dayLoop_invariant [where P = ?P])
    fix cur prev p and s :: portfolio
    assume "?P s" and "distinctRefs s" and "p \<in> set (positions s)"
    then show "?P (closeStep strategy ?hist cur prev p s)"
      by (simp add: closeStep_balanced closeStep_closedTrades)
  next
    fix cur prev symb and s :: portfolio
    assume "?P s"
    then show "?P (openStep strategy ?hist cur prev symb s)"
      by (simp add: openStep_balanced openStep_allTrades)
  next
    fix pts and s :: portfolio assume "?P s"
    then show "?P (s\<lparr>curve := pts\<rparr>)" by (simp add: balanced_def)
  next
    show "?P (initialPortfolio ?cfg)"
      by (simp add: balanced_def initialPortfolio_def invested_def ledgerPnl_def)
  next
    show "distinctRefs (initialPortfolio ?cfg)" by (rule distinctRefs_initial)
  qed
  then show ?thesis by (simp add: afterLoop_def Let_def)
qed

lemma portfolioValue_sum:
  "portfolioValue hist d st
   = cash st + sum_list (map (\<lambda>p. case findBar hist (symbol p) d of
                                      Some b \<Rightarrow> close b * of_int (quantity p)
                                    | None \<Rightarrow> 0) (positions st))"
proof -
  have "fold (\<lambda>position total.
               case findBar hist (symbol position) d of
                 Some b \<Rightarrow> total + close b * of_int (quantity position)
               | None \<Rightarrow> total) ps c
        = c + sum_list (map (\<lambda>p. case findBar hist (symbol p) d of
                                      Some b \<Rightarrow> close b * of_int (quantity p)
                                    | None \<Rightarrow> 0) ps)" for ps and c :: real
    by (induction ps arbitrary: c) (auto split: option.split)
  then show ?thesis by (simp add: portfolioValue_def)
qed

lemma portfolioValue_curve [simp]:
  "portfolioValue hist d (st\<lparr>curve := pts\<rparr>) = portfolioValue hist d st"
  by (simp add: portfolioValue_def)

lemma dayLoop_last_point:
  "ds \<noteq> [] \<Longrightarrow>
   curve (dayLoop strategy hist prev ds st) \<noteq> []
   \<and> equity (last (curve (dayLoop strategy hist prev ds st)))
       = portfolioValue hist (last ds) (dayLoop strategy hist prev ds st)"
proof (induction ds arbitrary: st prev)
  case Nil
  then show ?case by simp
next
  case (Cons d ds)
  show ?case
  proof (cases "ds = []")
    case True
    then show ?thesis by (simp add: simulateDay_def Let_def)
  next
    case False
    from Cons.IH [OF False, of "Some d" "simulateDay strategy hist prev d st"] False
    show ?thesis by simp
  qed
qed

lemma sum_pnl_split:
  "sum_list (map (\<lambda>p. (c p - entryPrice p) * of_int (quantity p)) ps)
   = sum_list (map (\<lambda>p. c p * of_int (quantity p)) ps) - invested ps"
  for c :: "Trade \<Rightarrow> real"
  by (induction ps) (simp_all add: invested_def algebra_simps)

lemma ledgerPnl_finalLedger:
  "ledgerPnl (finalLedger strategy getHistoricalData)
   = ledgerPnl (allTrades (afterLoop strategy getHistoricalData))
     + sum_list (map (\<lambda>p. (close (last (historicalDataBySymbol getHistoricalData
                                            (simulationConfig strategy) (symbol p)))
                            - entryPrice p) * of_int (quantity p))
                     (positions (afterLoop strategy getHistoricalData)))"
  by (simp add: finalLedger_def Let_def ledgerPnl_def comp_def pnlOrZero_def closeAtLast_def)

lemma finalLedger_closed:
  "list_all closedTrade (finalLedger strategy getHistoricalData)"
proof -
  have "closedTrade (closeAtLast b p)" for b p
    by (simp add: closedTrade_def closeAtLast_def)
  then show ?thesis
    using afterLoop_accounts [of strategy getHistoricalData]
    by (auto simp: finalLedger_def Let_def list_all_iff)
qed

text \<open>In a series in ascending order of date, the bar of the last trading day is the
  last element.\<close>

lemma set_firstOccurrences: "set (firstOccurrences seen xs) = set xs - set seen"
  by (induction xs arbitrary: seen) auto

lemma set_allDates:
  "set (allDates getHistoricalData cfg)
   = (\<Union>symb \<in> set (symbols cfg). date ` set (historicalDataBySymbol getHistoricalData cfg symb))"
  by (auto simp: allDates_def set_firstOccurrences)

lemma sorted_le_last:
  fixes xs :: "'a::linorder list"
  assumes "sorted xs" and "x \<in> set xs"
  shows "x \<le> last xs"
proof -
  have ne: "xs \<noteq> []" using assms(2) by auto
  then have xs: "xs = butlast xs @ [last xs]" by simp
  have "sorted (butlast xs @ [last xs])" using assms(1) xs by simp
  then have "\<forall>y \<in> set (butlast xs). y \<le> last xs" by (simp add: sorted_append)
  moreover have "x \<in> set (butlast xs) \<or> x = last xs"
    using assms(2) xs by (metis Un_iff empty_iff empty_set set_ConsD set_append)
  ultimately show ?thesis by auto
qed

lemma date_le_last_allDates:
  assumes "symb \<in> set (symbols cfg)"
    and "b \<in> set (historicalDataBySymbol getHistoricalData cfg symb)"
  shows "date b \<le> last (allDates getHistoricalData cfg)"
proof -
  have "date b \<in> set (allDates getHistoricalData cfg)"
    using assms by (auto simp: set_allDates)
  moreover have "sorted (allDates getHistoricalData cfg)"
    by (simp add: allDates_def)
  ultimately show ?thesis by (intro sorted_le_last)
qed

lemma bar_of_latest_date_is_last:
  assumes asc: "sorted_wrt (<) (map date bars)"
    and b: "b \<in> set bars"
    and latest: "\<forall>b' \<in> set bars. date b' \<le> date b"
  shows "b = last bars"
proof -
  have ne: "bars \<noteq> []" using b by auto
  then have bars: "bars = butlast bars @ [last bars]" by simp
  have "sorted_wrt (<) (map date (butlast bars) @ [date (last bars)])"
    using asc bars by (metis list.simps(8,9) map_append)
  then have lt: "\<forall>x \<in> set (butlast bars). date x < date (last bars)"
    by (simp add: sorted_wrt_append)
  have "date (last bars) \<le> date b" using latest ne by simp
  then have "b \<notin> set (butlast bars)" using lt by auto
  moreover have "b \<in> set (butlast bars) \<or> b = last bars"
    using b bars by (metis Un_iff empty_iff empty_set set_ConsD set_append)
  ultimately show ?thesis by simp
qed

lemma priced_position_marked_at_last:
  assumes asc: "datesAscending getHistoricalData cfg"
    and symb: "symb \<in> set (symbols cfg)"
    and found: "findBar (historicalDataBySymbol getHistoricalData cfg) symb
                  (last (allDates getHistoricalData cfg)) = Some b"
  shows "b = last (historicalDataBySymbol getHistoricalData cfg symb)"
proof -
  let ?bars = "historicalDataBySymbol getHistoricalData cfg symb"
  have s: "sorted_wrt (<) (map date ?bars)"
    using asc symb by (simp add: datesAscending_def list_all_iff)
  have mem: "b \<in> set ?bars" and d: "date b = last (allDates getHistoricalData cfg)"
    using findBar_Some_mem [OF found] by simp_all
  have "\<forall>b' \<in> set ?bars. date b' \<le> date b"
    using date_le_last_allDates [OF symb] d by simp
  with s mem show ?thesis by (rule bar_of_latest_date_is_last)
qed

text \<open>
  C1. Over exact arithmetic, for every run that returns: every trade of the returned ledger
  is closed, with \<open>pnl = (exitPrice - entryPrice) * quantity\<close>, and the sum of \<open>pnl\<close> over
  the ledger is the equity of the last point of the equity curve less the initial capital
  (and 0 when there is no trading day), provided every position still open when the day
  loop ends has a bar on the last trading day. The series are those of the provider's
  contract, in ascending order of date, with positive closing prices (the share quantity
  divides by the close).
\<close>

theorem ledger_pnl_is_equity_change:
  assumes run: "runSimulation strategy getHistoricalData = Inr r"
    and pp: "pricesPositive getHistoricalData (simulationConfig strategy)"
    and asc: "datesAscending getHistoricalData (simulationConfig strategy)"
    and priced: "openPositionsPricedOnLastDay strategy getHistoricalData"
  shows "list_all closedTrade (trades r)
       \<and> ledgerPnl (trades r)
           = (if equityCurve r = [] then 0
              else equity (last (equityCurve r)) - initialCapital (simulationConfig strategy))"
proof -
  let ?cfg = "simulationConfig strategy"
  let ?hist = "historicalDataBySymbol getHistoricalData ?cfg"
  let ?ds = "allDates getHistoricalData ?cfg"
  let ?st = "afterLoop strategy getHistoricalData"
  let ?cl = "\<lambda>p. close (last (?hist (symbol p)))"
  have r: "r = computeResults ?cfg (finalLedger strategy getHistoricalData) (curve ?st)"
    using run runSimulation_returns [of strategy getHistoricalData] by simp
  have tr: "trades r = finalLedger strategy getHistoricalData" and ec: "equityCurve r = curve ?st"
    unfolding r by (simp_all add: computeResults_fields)
  have closed: "list_all closedTrade (trades r)"
    unfolding tr by (rule finalLedger_closed)
  have bal: "cash ?st = initialCapital ?cfg - invested (positions ?st) + ledgerPnl (allTrades ?st)"
    using afterLoop_accounts [of strategy getHistoricalData] by (simp add: balanced_def)
  have pnl: "ledgerPnl (trades r)
             = ledgerPnl (allTrades ?st)
               + (sum_list (map (\<lambda>p. ?cl p * of_int (quantity p)) (positions ?st))
                  - invested (positions ?st))"
    unfolding tr by (simp add: ledgerPnl_finalLedger sum_pnl_split)
  show ?thesis
  proof (cases "?ds = []")
    case True
    then have "?st = initialPortfolio ?cfg" by (simp add: afterLoop_def Let_def)
    then have "curve ?st = []" and "finalLedger strategy getHistoricalData = []"
      by (simp_all add: finalLedger_def Let_def initialPortfolio_def)
    then show ?thesis using closed by (simp add: tr ec ledgerPnl_def)
  next
    case False
    have lp: "curve ?st \<noteq> [] \<and> equity (last (curve ?st)) = portfolioValue ?hist (last ?ds) ?st"
      unfolding afterLoop_def Let_def by (rule dayLoop_last_point [OF False])
    have marks: "map (\<lambda>p. case findBar ?hist (symbol p) (last ?ds) of
                             Some b \<Rightarrow> close b * of_int (quantity p)
                           | None \<Rightarrow> 0) (positions ?st)
                 = map (\<lambda>p. ?cl p * of_int (quantity p)) (positions ?st)"
    proof (rule map_cong [OF refl])
      fix p assume p: "p \<in> set (positions ?st)"
      have symb: "symbol p \<in> set (symbols ?cfg)"
        using afterLoop_hasSeries [of getHistoricalData strategy] p
        by (simp add: hasSeries_def list_all_iff)
      have "findBar ?hist (symbol p) (last ?ds) \<noteq> None"
        using priced p by (simp add: openPositionsPricedOnLastDay_def Let_def list_all_iff)
      then obtain b where b: "findBar ?hist (symbol p) (last ?ds) = Some b" by auto
      have "b = last (?hist (symbol p))"
        using priced_position_marked_at_last [OF asc symb b] .
      then show "(case findBar ?hist (symbol p) (last ?ds) of
                    Some b \<Rightarrow> close b * of_int (quantity p)
                  | None \<Rightarrow> 0) = ?cl p * of_int (quantity p)"
        using b by simp
    qed
    have "equity (last (curve ?st))
          = cash ?st + sum_list (map (\<lambda>p. ?cl p * of_int (quantity p)) (positions ?st))"
      using lp by (simp add: portfolioValue_sum marks)
    then have "ledgerPnl (trades r) = equity (last (curve ?st)) - initialCapital ?cfg"
      using bal pnl by simp
    then show ?thesis using closed lp by (simp add: ec)
  qed
qed

text \<open>The position held through the dip is closed at the last bar with a \<open>pnl\<close> of -25,
  and the last equity is 975 of an initial 1000.\<close>

theorem ledger_pnl_is_equity_change_witness:
  "pricesPositive providerDip (simulationConfig strategyHold)
   \<and> datesAscending providerDip (simulationConfig strategyHold)
   \<and> openPositionsPricedOnLastDay strategyHold providerDip
   \<and> (\<exists>r. runSimulation strategyHold providerDip = Inr r
          \<and> map pnlOrZero (trades r) = [- 25]
          \<and> map equity (equityCurve r) = [1000, 950, 975]
          \<and> ledgerPnl (trades r)
              = equity (last (equityCurve r)) - initialCapital (simulationConfig strategyHold))"
proof -
  have pp: "pricesPositive providerDip (simulationConfig strategyHold)"
    by (simp add: pricesPositive_def historicalDataBySymbol_def example_defs example_dip_defs)
  have asc: "datesAscending providerDip (simulationConfig strategyHold)"
    by (simp add: datesAscending_def historicalDataBySymbol_def example_defs example_dip_defs)
  have priced: "openPositionsPricedOnLastDay strategyHold providerDip"
    by (simp add: openPositionsPricedOnLastDay_def run_defs example_defs example_dip_defs)
  obtain r where run: "runSimulation strategyHold providerDip = Inr r"
    by (simp add: runSimulation_returns)
  have ev: "map pnlOrZero (trades r) = [- 25] \<and> map equity (equityCurve r) = [1000, 950, 975]"
    using run by (auto simp: run_defs example_defs example_dip_defs)
  then have "equityCurve r \<noteq> []" by auto
  with ledger_pnl_is_equity_change [OF run pp asc priced] ev pp asc priced run
  show ?thesis by auto
qed

subsection \<open>The final capital\<close>

text \<open>The third example.\<close>

lemmas example_gap_defs = providerGap_def strategyAllIn_def

text \<open>The default of \<open>||\<close> is taken for an empty curve and for a last equity of 0.\<close>

lemma finalCapital_cases:
  "finalCapital eqs initCap
   = (if eqs \<noteq> [] \<and> equity (last eqs) \<noteq> 0 then equity (last eqs) else initCap)"
  by (simp add: finalCapital_def)

text \<open>
  C5. The claim is that the final equity is the equity of the last point whenever the curve
  is not empty. The code departs from it when that equity is 0. In the run below the
  whole capital buys \<open>A\<close> on the first day; on the second day \<open>A\<close> has no bar, so the
  equity point of that day is 0 (no cash, no marked position). The curve is not empty and
  its last equity is 0, yet the final capital is the initial 1000 and the run reports a
  \<open>totalPnl\<close> of 0.
\<close>

theorem finalCapital_ignores_zero_equity:
  "\<exists>r. runSimulation strategyAllIn providerGap = Inr r
       \<and> equityCurve r = [\<lparr> eqDate = ''2024-01-01'', equity = 1000 \<rparr>, \<lparr> eqDate = ''2024-01-02'', equity = 0 \<rparr>]
       \<and> initialCapital (simulationConfig strategyAllIn) = 1000
       \<and> finalCapital (equityCurve r) (initialCapital (simulationConfig strategyAllIn)) = 1000
       \<and> totalPnl r = 0
       \<and> totalPnlPercentage r = 0"
  by (simp add: run_defs example_defs example_gap_defs)

text \<open>
  The condition of C1 on the last trading day is needed. In the run above the position in
  \<open>A\<close> has no bar on the last day: it is closed at its own last bar with a \<open>pnl\<close> of 0,
  while the last equity point is 1000 below the initial capital.
\<close>

lemma unpriced_position_breaks_balance:
  "\<not> openPositionsPricedOnLastDay strategyAllIn providerGap
   \<and> (\<exists>r. runSimulation strategyAllIn providerGap = Inr r
          \<and> ledgerPnl (trades r) = 0
          \<and> equity (last (equityCurve r)) - initialCapital (simulationConfig strategyAllIn) = - 1000)"
  by (simp add: openPositionsPricedOnLastDay_def ledgerPnl_def run_defs example_defs example_gap_defs)

subsection \<open>The condition evaluator\<close>

lemma applyOperator_number:
  "applyOperator ''>'' x (JsNumber v) = (x > v)"
  "applyOperator ''<'' x (JsNumber v) = (x < v)"
  "applyOperator ''>='' x (JsNumber v) = (x \<ge> v)"
  "applyOperator ''<='' x (JsNumber v) = (x \<le> v)"
  "applyOperator ''=='' x (JsNumber v) = (x = v)"
  by (simp_all add: applyOperator_def compareWith_def strictEquals_def)

lemma evaluateCondition_present:
  assumes "indicator c = Some ind" and "operator c = Some opr" and "cvalue c \<noteq> JsUndefined"
  shows "evaluateCondition (Some c) b prev
         = (case resolveIndicator ind b prev of
              None \<Rightarrow> False
            | Some actual \<Rightarrow> applyOperator opr actual (cvalue c))"
proof (cases "ind = [] \<or> opr = []")
  case True
  have "resolveIndicator [] b prev = None" by (simp add: resolveIndicator_def)
  moreover have "applyOperator [] a v = False" for a v by (simp add: applyOperator_def)
  ultimately show ?thesis
    using True assms by (auto simp: evaluateCondition_def falsy_def split: option.split)
next
  case False
  then show ?thesis
    using assms by (simp add: evaluateCondition_def falsy_def split: option.split)
qed

lemma evaluateCondition_missing:
  assumes "indicator c = None \<or> operator c = None \<or> cvalue c = JsUndefined"
  shows "evaluateCondition (Some c) b prev = False"
  using assms by (auto simp: evaluateCondition_def falsy_def)

lemma evaluateCondition_unknown_indicator:
  assumes "indicator c \<noteq> Some ''price''" and "indicator c \<noteq> Some ''volume''"
    and "indicator c \<noteq> Some ''priceChange''"
  shows "evaluateCondition (Some c) b prev = False"
  using assms
  by (auto simp: evaluateCondition_def falsy_def resolveIndicator_def split: option.split)

lemma evaluateCondition_unknown_operator:
  assumes "operator c \<notin> {Some ''>'', Some ''<'', Some ''>='', Some ''<='', Some ''==''}"
  shows "evaluateCondition (Some c) b prev = False"
proof (cases "indicator c = None \<or> operator c = None \<or> cvalue c = JsUndefined")
  case True
  then show ?thesis by (rule evaluateCondition_missing)
next
  case False
  then obtain ind opr where f: "indicator c = Some ind" "operator c = Some opr"
    "cvalue c \<noteq> JsUndefined"
    by auto
  have "applyOperator opr a v = False" for a v
    using assms f(2) by (simp add: applyOperator_def)
  then show ?thesis
    by (simp add: evaluateCondition_present [OF f] split: option.split)
qed

text \<open>
  What holds of \<open>evaluateCondition\<close>. For a condition with an indicator, an operator and a
  number as value, the operator is applied to the close for \<open>price\<close>, to the volume for
  \<open>volume\<close> and to \<open>(close - previous close) / previous close * 100\<close> for \<open>priceChange\<close>.
  The result is false for \<open>priceChange\<close> without a previous bar, for any other indicator,
  for an operator that is not one of the five comparisons, for a condition that lacks the
  indicator, the operator or the value, and for an absent condition.
\<close>

lemma evaluateCondition_false_cases:
  "(indicator c = Some ''price'' \<and> operator c = Some opr \<and> cvalue c = JsNumber v
      \<longrightarrow> evaluateCondition (Some c) b prev = applyOperator opr (close b) (JsNumber v))
   \<and> (indicator c = Some ''volume'' \<and> operator c = Some opr \<and> cvalue c = JsNumber v
      \<longrightarrow> evaluateCondition (Some c) b prev = applyOperator opr (volume b) (JsNumber v))
   \<and> (indicator c = Some ''priceChange'' \<and> operator c = Some opr \<and> cvalue c = JsNumber v
      \<longrightarrow> evaluateCondition (Some c) b (Some pb)
          = applyOperator opr ((close b - close pb) / close pb * 100) (JsNumber v))
   \<and> (indicator c = Some ''priceChange'' \<longrightarrow> evaluateCondition (Some c) b None = False)
   \<and> (indicator c \<notin> {Some ''price'', Some ''volume'', Some ''priceChange''}
      \<longrightarrow> evaluateCondition (Some c) b prev = False)
   \<and> (operator c \<notin> {Some ''>'', Some ''<'', Some ''>='', Some ''<='', Some ''==''}
      \<longrightarrow> evaluateCondition (Some c) b prev = False)
   \<and> (indicator c = None \<or> operator c = None \<or> cvalue c = JsUndefined
      \<longrightarrow> evaluateCondition (Some c) b prev = False)
   \<and> evaluateCondition None b prev = False"
proof -
  have price: "evaluateCondition (Some c) b prev = applyOperator opr (close b) (JsNumber v)"
    if "indicator c = Some ''price''" "operator c = Some opr" "cvalue c = JsNumber v"
    using evaluateCondition_present [OF that(1,2)] that(3) by (simp add: resolveIndicator_def)
  have vol: "evaluateCondition (Some c) b prev = applyOperator opr (volume b) (JsNumber v)"
    if "indicator c = Some ''volume''" "operator c = Some opr" "cvalue c = JsNumber v"
    using evaluateCondition_present [OF that(1,2)] that(3) by (simp add: resolveIndicator_def)
  have chg: "evaluateCondition (Some c) b (Some pb)
             = applyOperator opr ((close b - close pb) / close pb * 100) (JsNumber v)"
    if "indicator c = Some ''priceChange''" "operator c = Some opr" "cvalue c = JsNumber v"
    using evaluateCondition_present [OF that(1,2)] that(3) by (simp add: resolveIndicator_def)
  have noprev: "evaluateCondition (Some c) b None = False"
    if "indicator c = Some ''priceChange''"
    using that
    by (auto simp: evaluateCondition_def falsy_def resolveIndicator_def split: option.split)
  have unk: "evaluateCondition (Some c) b prev = False"
    if "indicator c \<notin> {Some ''price'', Some ''volume'', Some ''priceChange''}"
    using that by (intro evaluateCondition_unknown_indicator) simp_all
  have none: "evaluateCondition None b prev = False"
    by (simp add: evaluateCondition_def)
  show ?thesis
    using price vol chg noprev unk evaluateCondition_unknown_operator [of c b prev]
          evaluateCondition_missing [of c b prev] none
    by blast
qed

text \<open>A value that is present and not a number is compared after conversion.\<close>

lemma evaluateCondition_coerces_value:
  assumes "indicator c = Some ''price''" and "operator c = Some ''>''"
    and "cvalue c \<noteq> JsUndefined" and "toNumber (cvalue c) = Some n"
  shows "evaluateCondition (Some c) b prev = (close b > n)"
  using evaluateCondition_present [OF assms(1,2,3)] assms(4)
  by (simp add: resolveIndicator_def applyOperator_def compareWith_def)

text \<open>
  C6. The claim is that a malformed condition evaluates to false. The guard of
  \<open>evaluateCondition\<close> rejects a condition whose \<open>value\<close> is \<open>undefined\<close>, and the two
  \<open>switch\<close> defaults reject an indicator and an operator of any wrong kind, but a \<open>value\<close>
  that is present and not a number passes. The condition
  \<open>{indicator: 'price', operator: '>', value: null}\<close> is malformed (its value is not a
  number) and evaluates to true on a bar with close 100, since \<open>100 > null\<close> compares with
  0: as a scanner, buy or sell condition it gives a signal.
\<close>

theorem evaluateCondition_null_value_fires:
  "indicator priceAboveNull = Some ''price'' \<and> operator priceAboveNull = Some ''>''
   \<and> cvalue priceAboveNull = JsNull
   \<and> evaluateCondition (Some priceAboveNull) (mkBar ''2024-01-01'' 100) None = True
   \<and> passesScanner (Some [priceAboveNull]) (mkBar ''2024-01-01'' 100) None = True
   \<and> shouldBuy (Some [priceAboveNull]) (mkBar ''2024-01-01'' 100) None = True
   \<and> shouldSell (Some [priceAboveNull]) (mkBar ''2024-01-01'' 100) None (Some tradeA) = True"
  by (simp add: priceAboveNull_def mkBar_def tradeA_def evaluateCondition_def falsy_def
                resolveIndicator_def applyOperator_def compareWith_def passesScanner_def
                shouldBuy_def shouldSell_def sellConditionMet_def)

subsection \<open>The sell signal\<close>





end
